theory Spec2Isabelle
  imports Complex_Main "HOL-Library.AList"
begin

section \<open>The JavaScript built-ins the sources call\<close>

text \<open>
  Strings are lists of \<^typ>\<open>char\<close>. Node decodes header values as Latin-1, so one
  \<^typ>\<open>char\<close> is one code unit of the JavaScript string. A value that may be
  \<^verbatim>\<open>undefined\<close> (or, for a header, anything that is not a string) is an
  \<^typ>\<open>string option\<close>; a string is truthy when it is not empty.
\<close>

definition truthy :: "string option \<Rightarrow> bool" where
  "truthy v = (case v of None \<Rightarrow> False | Some s \<Rightarrow> s \<noteq> [])"

text \<open>\<^verbatim>\<open>a || b\<close> on two strings.\<close>

definition js_or :: "string \<Rightarrow> string \<Rightarrow> string" where
  "js_or a b = (if a \<noteq> [] then a else b)"

text \<open>White space of \<^verbatim>\<open>String.prototype.trim\<close> among the code units below 256:
  TAB, LF, VT, FF, CR, SPACE and NBSP.\<close>

definition js_whitespace :: "char \<Rightarrow> bool" where
  "js_whitespace c = (of_char c \<in> {9, 10, 11, 12, 13, 32, 160 :: nat})"

definition js_trim :: "string \<Rightarrow> string" where
  "js_trim s = rev (dropWhile js_whitespace (rev (dropWhile js_whitespace s)))"

definition startsWith :: "string \<Rightarrow> string \<Rightarrow> bool" where
  "startsWith s p = (take (length p) s = p)"

text \<open>\<^verbatim>\<open>s.indexOf(c, from)\<close> for a one-character pattern; \<open>None\<close> is the source's \<open>-1\<close>.\<close>

definition indexOf :: "string \<Rightarrow> char \<Rightarrow> nat \<Rightarrow> nat option" where
  "indexOf s c from =
     (if c \<in> set (drop from s) then Some (from + length (takeWhile (\<lambda>x. x \<noteq> c) (drop from s)))
      else None)"

text \<open>\<^verbatim>\<open>s.slice(a, b)\<close> for \<open>0 \<le> a\<close> and \<open>0 \<le> b\<close>.\<close>

definition slice :: "string \<Rightarrow> nat \<Rightarrow> nat \<Rightarrow> string" where
  "slice s a b = drop a (take b s)"

text \<open>\<^verbatim>\<open>s.replace(p, r)\<close> with a string pattern: the first occurrence only.\<close>

fun replace_first :: "string \<Rightarrow> string \<Rightarrow> string \<Rightarrow> string" where
  "replace_first p r [] = (if p = [] then r else [])"
| "replace_first p r (c # cs) =
     (if take (length p) (c # cs) = p then r @ drop (length p) (c # cs)
      else c # replace_first p r cs)"

text \<open>\<^verbatim>\<open>s.split(c)\<close> with a one-character separator: the empty string gives one empty piece.\<close>

fun js_split :: "char \<Rightarrow> string \<Rightarrow> string list" where
  "js_split c [] = [] # []"
| "js_split c (x # xs) =
     (if x = c then [] # js_split c xs
      else (case js_split c xs of [] \<Rightarrow> [x] # [] | y # ys \<Rightarrow> (x # y) # ys))"

text \<open>\<^verbatim>\<open>toLowerCase\<close> on Latin-1: A to Z, and the accented capitals 0xC0 to 0xDE but 0xD7.\<close>

definition lower_char :: "char \<Rightarrow> char" where
  "lower_char c =
     (let n = (of_char c :: nat)
      in if (65 \<le> n \<and> n \<le> 90) \<or> (192 \<le> n \<and> n \<le> 222 \<and> n \<noteq> 215) then char_of (n + 32) else c)"

definition toLowerCase :: "string \<Rightarrow> string" where
  "toLowerCase s = map lower_char s"

subsection \<open>\<^verbatim>\<open>Number(s)\<close>\<close>

text \<open>
  The numbers are kept exact: a finite value is a rational. The rounding of a decimal
  literal to the nearest double is not modelled; the sources compare the result only
  with 16, 31, 169, 172 and 254.
\<close>

datatype js_number = NaN | Finite rat | PosInfinity | NegInfinity

definition is_digit :: "char \<Rightarrow> bool" where
  "is_digit c = (c \<in> set ''0123456789'')"

definition is_hex :: "char \<Rightarrow> bool" where
  "is_hex c = (c \<in> set ''0123456789abcdefABCDEF'')"

definition digit_val :: "char \<Rightarrow> nat" where
  "digit_val c =
     (let n = (of_char c :: nat)
      in if 48 \<le> n \<and> n \<le> 57 then n - 48
         else if 97 \<le> n \<and> n \<le> 102 then n - 87
         else if 65 \<le> n \<and> n \<le> 70 then n - 55
         else 0)"

definition digits_val :: "nat \<Rightarrow> string \<Rightarrow> nat" where
  "digits_val base s = foldl (\<lambda>a c. a * base + digit_val c) 0 s"

text \<open>\<open>[eE][+-]?digits\<close>, or nothing: the exponent, \<open>None\<close> when the rest is neither.\<close>

definition exponent_part :: "string \<Rightarrow> int option" where
  "exponent_part r =
     (case r of
        [] \<Rightarrow> Some 0
      | e # ds \<Rightarrow>
          if e \<noteq> CHR ''e'' \<and> e \<noteq> CHR ''E'' then None
          else (case ds of
                  [] \<Rightarrow> None
                | d # ds' \<Rightarrow>
                    if d = CHR ''-'' then
                      (if ds' \<noteq> [] \<and> list_all is_digit ds' then Some (- int (digits_val 10 ds')) else None)
                    else if d = CHR ''+'' then
                      (if ds' \<noteq> [] \<and> list_all is_digit ds' then Some (int (digits_val 10 ds')) else None)
                    else (if list_all is_digit ds then Some (int (digits_val 10 ds)) else None)))"

text \<open>\<open>digits [. digits] [exponent]\<close> or \<open>. digits [exponent]\<close>, without a sign.\<close>

definition unsigned_decimal :: "string \<Rightarrow> rat option" where
  "unsigned_decimal u =
     (let ip = takeWhile is_digit u;
          r1 = dropWhile is_digit u;
          fp = (case r1 of [] \<Rightarrow> [] | d # r \<Rightarrow> if d = CHR ''.'' then takeWhile is_digit r else []);
          r2 = (case r1 of [] \<Rightarrow> [] | d # r \<Rightarrow> if d = CHR ''.'' then dropWhile is_digit r else r1)
      in if ip = [] \<and> fp = [] then None
         else (case exponent_part r2 of
                 None \<Rightarrow> None
               | Some e \<Rightarrow>
                   let m = of_nat (digits_val 10 (ip @ fp)) :: rat;
                       x = e - int (length fp)
                   in Some (if 0 \<le> x then m * 10 ^ nat x else m / 10 ^ nat (- x))))"

definition radix_literal :: "string \<Rightarrow> char \<Rightarrow> char \<Rightarrow> string \<Rightarrow> nat \<Rightarrow> rat option" where
  "radix_literal t lo up allowed base =
     (case t of
        z # x # ds \<Rightarrow>
          if z = CHR ''0'' \<and> (x = lo \<or> x = up) \<and> ds \<noteq> [] \<and> list_all (\<lambda>c. c \<in> set allowed) ds
          then Some (of_nat (digits_val base ds))
          else None
      | _ \<Rightarrow> None)"

definition js_Number :: "string \<Rightarrow> js_number" where
  "js_Number s =
     (let t = js_trim s
      in if t = [] then Finite 0
         else if t = ''Infinity'' \<or> t = ''+Infinity'' then PosInfinity
         else if t = ''-Infinity'' then NegInfinity
         else (case radix_literal t CHR ''x'' CHR ''X'' ''0123456789abcdefABCDEF'' 16 of
                 Some q \<Rightarrow> Finite q
               | None \<Rightarrow>
           (case radix_literal t CHR ''o'' CHR ''O'' ''01234567'' 8 of
                 Some q \<Rightarrow> Finite q
               | None \<Rightarrow>
           (case radix_literal t CHR ''b'' CHR ''B'' ''01'' 2 of
                 Some q \<Rightarrow> Finite q
               | None \<Rightarrow>
           (if hd t = CHR ''-'' then
              (case unsigned_decimal (tl t) of Some q \<Rightarrow> Finite (- q) | None \<Rightarrow> NaN)
            else if hd t = CHR ''+'' then
              (case unsigned_decimal (tl t) of Some q \<Rightarrow> Finite q | None \<Rightarrow> NaN)
            else (case unsigned_decimal t of Some q \<Rightarrow> Finite q | None \<Rightarrow> NaN))))))"

text \<open>\<^verbatim>\<open>x === n\<close>, \<^verbatim>\<open>x >= n\<close> and \<^verbatim>\<open>x <= n\<close> against a finite constant.\<close>

definition num_eq :: "js_number \<Rightarrow> rat \<Rightarrow> bool" where
  "num_eq x n = (case x of Finite q \<Rightarrow> q = n | _ \<Rightarrow> False)"

definition num_ge :: "js_number \<Rightarrow> rat \<Rightarrow> bool" where
  "num_ge x n = (case x of Finite q \<Rightarrow> n \<le> q | PosInfinity \<Rightarrow> True | _ \<Rightarrow> False)"

definition num_le :: "js_number \<Rightarrow> rat \<Rightarrow> bool" where
  "num_le x n = (case x of Finite q \<Rightarrow> q \<le> n | NegInfinity \<Rightarrow> True | _ \<Rightarrow> False)"

subsection \<open>\<^verbatim>\<open>net.isIP\<close>\<close>

text \<open>
  \<^verbatim>\<open>net.isIP\<close> is Node's, not the repository's. It is modelled after the regular
  expressions of Node's \<^verbatim>\<open>lib/internal/net.js\<close>: an IPv4 address is four decimal
  segments from 0 to 255 without leading zeros; an IPv6 address is eight groups of one to
  four hexadecimal digits, the last two of which may be an IPv4 address, with at most one
  \<^verbatim>\<open>::\<close> standing for one or more groups, and an optional zone after \<^verbatim>\<open>%\<close>.
  The result is 4, 6 or 0.
\<close>

definition v4Seg :: "string \<Rightarrow> bool" where
  "v4Seg s = (s \<noteq> [] \<and> length s \<le> 3 \<and> list_all is_digit s
              \<and> (length s = 1 \<or> hd s \<noteq> CHR ''0'') \<and> digits_val 10 s \<le> 255)"

definition isIPv4 :: "string \<Rightarrow> bool" where
  "isIPv4 s = (let ps = js_split CHR ''.'' s in length ps = 4 \<and> list_all v4Seg ps)"

definition v6Seg :: "string \<Rightarrow> bool" where
  "v6Seg s = (s \<noteq> [] \<and> length s \<le> 4 \<and> list_all is_hex s)"

text \<open>The pieces before and after the first \<^verbatim>\<open>::\<close>.\<close>

fun split_dcolon :: "string \<Rightarrow> (string \<times> string) option" where
  "split_dcolon (a # b # cs) =
     (if a = CHR '':'' \<and> b = CHR '':'' then Some ([], cs)
      else (case split_dcolon (b # cs) of None \<Rightarrow> None | Some (l, r) \<Rightarrow> Some (a # l, r)))"
| "split_dcolon _ = None"

text \<open>The number of 16-bit groups a colon-separated run stands for, \<open>None\<close> when it is
  malformed; only the last piece may be an IPv4 address, when \<open>v4\<close> allows it.\<close>

definition groups :: "bool \<Rightarrow> string \<Rightarrow> nat option" where
  "groups v4 s =
     (if s = [] then Some 0
      else let ps = js_split CHR '':'' s
           in if list_all v6Seg ps then Some (length ps)
              else if v4 \<and> list_all v6Seg (butlast ps) \<and> isIPv4 (last ps) then Some (length ps + 1)
              else None)"

definition zone_char :: "char \<Rightarrow> bool" where
  "zone_char c =
     (c \<in> set ''0123456789abcdefghijklmnopqrstuvwxyzABCDEFGHIJKLMNOPQRSTUVWXYZ-.:'')"

definition isIPv6 :: "string \<Rightarrow> bool" where
  "isIPv6 s =
     (let addr = takeWhile (\<lambda>c. c \<noteq> CHR ''%'') s;
          rest = dropWhile (\<lambda>c. c \<noteq> CHR ''%'') s;
          zone_ok = (rest = [] \<or> (tl rest \<noteq> [] \<and> list_all zone_char (tl rest)))
      in zone_ok \<and>
         (case split_dcolon addr of
            None \<Rightarrow> addr \<noteq> [] \<and> groups True addr = Some 8
          | Some (l, r) \<Rightarrow>
              (case (groups False l, groups True r) of
                 (Some k, Some m) \<Rightarrow> k + m \<le> 7
               | _ \<Rightarrow> False)))"

definition net_isIP :: "string \<Rightarrow> nat" where
  "net_isIP s = (if isIPv4 s then 4 else if isIPv6 s then 6 else 0)"

section \<open>The client-origin resolver (\<^verbatim>\<open>utils/keyUtils.js\<close>)\<close>

text \<open>
  The part of an Express request that \<^verbatim>\<open>getClientIp\<close> and \<^verbatim>\<open>getIpVariants\<close> read.
  \<open>req_headers h\<close> is \<open>Some v\<close> when the header \<open>h\<close> is present with the string \<open>v\<close>
  (the sources skip every value that is not a string); a missing \<^verbatim>\<open>req.headers\<close> is the
  empty map. Each transport address is \<open>None\<close> when it, or the object it hangs from, is
  missing.
\<close>

record request =
  req_headers :: "string \<Rightarrow> string option"
  req_ip :: "string option"
  connection_remoteAddress :: "string option"
  socket_remoteAddress :: "string option"
  connection_socket_remoteAddress :: "string option"

subsection \<open>\<^verbatim>\<open>getClientIp\<close> and its local functions\<close>

text \<open>The source's \<^verbatim>\<open>normalize\<close> is \<open>normalize_ip\<close> here: HOL has a \<open>normalize\<close> of its own.\<close>

definition normalize_ip :: "string \<Rightarrow> string" where
  "normalize_ip raw =
     (if raw = [] then []
      else
        let ip = js_trim raw;
            ip1 =
              (if startsWith ip ''['' then
                 (case indexOf ip CHR '']'' 0 of Some e \<Rightarrow> slice ip 1 e | None \<Rightarrow> ip)
               else
                 (case indexOf ip CHR '':'' 0 of
                    Some colonIdx \<Rightarrow>
                      if indexOf ip CHR '':'' (colonIdx + 1) = None then slice ip 0 colonIdx else ip
                  | None \<Rightarrow> ip))
        in if startsWith ip1 ''::ffff:'' then replace_first ''::ffff:'' [] ip1 else ip1)"

definition isPrivate :: "string \<Rightarrow> bool" where
  "isPrivate ip =
     (if ip = [] then True
      else if ip = ''127.0.0.1'' \<or> ip = ''::1'' then True
      else if startsWith ip ''10.'' then True
      else if startsWith ip ''192.168.'' then True
      else
        let octets = map js_Number (js_split CHR ''.'' ip)
        in if length octets = 4 \<and> num_eq (octets ! 0) 172 \<and> num_ge (octets ! 1) 16
                \<and> num_le (octets ! 1) 31 then True
           else if length octets = 4 \<and> num_eq (octets ! 0) 169 \<and> num_eq (octets ! 1) 254 then True
           else
             let lower = toLowerCase ip
             in if startsWith lower ''fc'' \<or> startsWith lower ''fd'' then True
                else if startsWith lower ''fe80:'' then True
                else False)"

text \<open>The two loops of \<^verbatim>\<open>pickFirstPublic\<close>: each returns at its first hit.\<close>

fun first_public :: "string list \<Rightarrow> string option" where
  "first_public [] = None"
| "first_public (raw # list) =
     (let ip = normalize_ip raw
      in if net_isIP ip \<noteq> 0 \<and> \<not> isPrivate ip then Some ip else first_public list)"

fun first_valid :: "string list \<Rightarrow> string option" where
  "first_valid [] = None"
| "first_valid (raw # list) =
     (let ip = normalize_ip raw in if net_isIP ip \<noteq> 0 then Some ip else first_valid list)"

definition pickFirstPublic :: "string list \<Rightarrow> string" where
  "pickFirstPublic list =
     (case first_public list of
        Some ip \<Rightarrow> ip
      | None \<Rightarrow> (case first_valid list of Some ip \<Rightarrow> ip | None \<Rightarrow> []))"

text \<open>
  \<^verbatim>\<open>p.match(/for=([^;]+)/i)\<close>: the leftmost \<^verbatim>\<open>for=\<close>, in any case, that is followed by a
  character other than \<^verbatim>\<open>;\<close>; the group is the longest run without \<^verbatim>\<open>;\<close> after it.
\<close>

definition for_here :: "string \<Rightarrow> bool" where
  "for_here s =
     (case s of
        a # b # c # d # x # _ \<Rightarrow>
          (a = CHR ''f'' \<or> a = CHR ''F'') \<and> (b = CHR ''o'' \<or> b = CHR ''O'')
          \<and> (c = CHR ''r'' \<or> c = CHR ''R'') \<and> d = CHR ''='' \<and> x \<noteq> CHR '';''
      | _ \<Rightarrow> False)"

fun match_for :: "string \<Rightarrow> string option" where
  "match_for [] = None"
| "match_for (c # cs) =
     (if for_here (c # cs) then Some (takeWhile (\<lambda>x. x \<noteq> CHR '';'') (drop 4 (c # cs)))
      else match_for cs)"

text \<open>\<^verbatim>\<open>.replace(/\"/g, '')\<close>: every double quote goes.\<close>

definition strip_quotes :: "string \<Rightarrow> string" where
  "strip_quotes s = filter (\<lambda>c. c \<noteq> CHR 0x22) s"

definition directHeaders :: "string list" where
  "directHeaders =
     [''cf-connecting-ip'', ''true-client-ip'', ''x-real-ip'', ''x-client-ip'',
      ''fastly-client-ip'', ''x-cluster-client-ip'', ''fly-client-ip'']"

text \<open>\<^verbatim>\<open>.filter(Boolean)\<close> on values that are strings or missing.\<close>

definition filter_Boolean :: "string option list \<Rightarrow> string list" where
  "filter_Boolean vs = concat (map (\<lambda>v. case v of None \<Rightarrow> [] | Some s \<Rightarrow> if s \<noteq> [] then [s] else []) vs)"

definition forwarded_candidates :: "(string \<Rightarrow> string option) \<Rightarrow> string list" where
  "forwarded_candidates headers =
     (case headers ''forwarded'' of
        None \<Rightarrow> []
      | Some fwd \<Rightarrow>
          if fwd = [] then []
          else concat (map (\<lambda>p. case match_for p of
                                    None \<Rightarrow> []
                                  | Some m1 \<Rightarrow> if m1 \<noteq> [] then [strip_quotes (strip_quotes m1)] else [])
                           (js_split CHR '','' fwd)))"

definition direct_candidates :: "(string \<Rightarrow> string option) \<Rightarrow> string list" where
  "direct_candidates headers =
     concat (map (\<lambda>h. case headers h of None \<Rightarrow> [] | Some v \<Rightarrow> [v]) directHeaders)"

definition xff_candidates :: "(string \<Rightarrow> string option) \<Rightarrow> string list" where
  "xff_candidates headers =
     (case headers ''x-forwarded-for'' of
        None \<Rightarrow> []
      | Some xff \<Rightarrow>
          if xff = [] then []
          else filter (\<lambda>s. s \<noteq> []) (map js_trim (js_split CHR '','' xff)))"

definition fallbacks :: "request \<Rightarrow> string list" where
  "fallbacks req =
     filter_Boolean [req_ip req, connection_remoteAddress req, socket_remoteAddress req,
                     connection_socket_remoteAddress req]"

definition candidates :: "request \<Rightarrow> string list" where
  "candidates req =
     forwarded_candidates (req_headers req) @ direct_candidates (req_headers req)
     @ xff_candidates (req_headers req) @ fallbacks req"

text \<open>
  \<open>ipPreference\<close> is \<^verbatim>\<open>require('../config').ipPreference\<close>; the configuration module is
  not among the sources, so it is a parameter (\<open>None\<close> when the field is not set).
\<close>

definition getClientIp :: "string option \<Rightarrow> request \<Rightarrow> string" where
  "getClientIp ipPreference req =
     (let bestPublic = pickFirstPublic (candidates req);
          firstValid = (case first_valid (candidates req) of Some ip \<Rightarrow> ip | None \<Rightarrow> []);
          chosen = (if ipPreference = Some ''private'' then js_or firstValid bestPublic
                    else js_or bestPublic firstValid)
      in js_or chosen ''unknown'')"

subsection \<open>\<^verbatim>\<open>getIpVariants\<close> and its own local functions\<close>

text \<open>
  \<^verbatim>\<open>getIpVariants\<close> declares its helpers again instead of sharing those of
  \<^verbatim>\<open>getClientIp\<close>. They are translated from its own text, with the prefix \<open>gv_\<close>.
\<close>

definition gv_normalize :: "string \<Rightarrow> string" where
  "gv_normalize raw =
     (if raw = [] then []
      else
        let ip = js_trim raw;
            ip1 =
              (if startsWith ip ''['' then
                 (case indexOf ip CHR '']'' 0 of Some e \<Rightarrow> slice ip 1 e | None \<Rightarrow> ip)
               else
                 (case indexOf ip CHR '':'' 0 of
                    Some colonIdx \<Rightarrow>
                      if indexOf ip CHR '':'' (colonIdx + 1) = None then slice ip 0 colonIdx else ip
                  | None \<Rightarrow> ip))
        in if startsWith ip1 ''::ffff:'' then replace_first ''::ffff:'' [] ip1 else ip1)"

definition gv_isPrivate :: "string \<Rightarrow> bool" where
  "gv_isPrivate ip =
     (if ip = [] then True
      else if ip = ''127.0.0.1'' \<or> ip = ''::1'' then True
      else if startsWith ip ''10.'' \<or> startsWith ip ''192.168.'' then True
      else
        let os = map js_Number (js_split CHR ''.'' ip)
        in if length os = 4 \<and> num_eq (os ! 0) 172 \<and> num_ge (os ! 1) 16 \<and> num_le (os ! 1) 31 then True
           else if length os = 4 \<and> num_eq (os ! 0) 169 \<and> num_eq (os ! 1) 254 then True
           else
             let low = toLowerCase ip
             in if startsWith low ''fc'' \<or> startsWith low ''fd'' \<or> startsWith low ''fe80:'' then True
                else False)"

fun gv_first_public :: "string list \<Rightarrow> string option" where
  "gv_first_public [] = None"
| "gv_first_public (raw # list) =
     (let ip = gv_normalize raw
      in if net_isIP ip \<noteq> 0 \<and> \<not> gv_isPrivate ip then Some ip else gv_first_public list)"

fun gv_first_valid :: "string list \<Rightarrow> string option" where
  "gv_first_valid [] = None"
| "gv_first_valid (raw # list) =
     (let ip = gv_normalize raw in if net_isIP ip \<noteq> 0 then Some ip else gv_first_valid list)"

definition gv_pickFirstPublic :: "string list \<Rightarrow> string" where
  "gv_pickFirstPublic list =
     (case gv_first_public list of
        Some ip \<Rightarrow> ip
      | None \<Rightarrow> (case gv_first_valid list of Some ip \<Rightarrow> ip | None \<Rightarrow> []))"

definition gv_candidates :: "request \<Rightarrow> string list" where
  "gv_candidates req =
     (let headers = req_headers req;
          c1 = (case headers ''forwarded'' of
                  None \<Rightarrow> []
                | Some fwd \<Rightarrow>
                    if fwd = [] then []
                    else concat (map (\<lambda>p. case match_for p of
                                              None \<Rightarrow> []
                                            | Some m1 \<Rightarrow>
                                                if m1 \<noteq> [] then [strip_quotes (strip_quotes m1)] else [])
                                     (js_split CHR '','' fwd)));
          c2 = concat (map (\<lambda>h. case headers h of None \<Rightarrow> [] | Some v \<Rightarrow> [v])
                 [''cf-connecting-ip'', ''true-client-ip'', ''x-real-ip'', ''x-client-ip'',
                  ''fastly-client-ip'', ''x-cluster-client-ip'', ''fly-client-ip'']);
          c3 = (case headers ''x-forwarded-for'' of
                  None \<Rightarrow> []
                | Some xff \<Rightarrow>
                    if xff = [] then []
                    else filter (\<lambda>s. s \<noteq> []) (map js_trim (js_split CHR '','' xff)));
          c4 = filter_Boolean [req_ip req, connection_remoteAddress req, socket_remoteAddress req,
                               connection_socket_remoteAddress req]
      in c1 @ c2 @ c3 @ c4)"

text \<open>A field of the result is \<open>None\<close> where the source returns \<^verbatim>\<open>null\<close>.\<close>

record ip_variants =
  publicIp :: "string option"
  privateIp :: "string option"

definition getIpVariants :: "request \<Rightarrow> ip_variants" where
  "getIpVariants req =
     \<lparr>publicIp = (let p = gv_pickFirstPublic (gv_candidates req) in if p \<noteq> [] then Some p else None),
      privateIp = gv_first_valid (gv_candidates req)\<rparr>"

subsection \<open>The vocabulary of the specification\<close>

text \<open>A candidate is syntactically valid when its normal form passes \<^verbatim>\<open>net.isIP\<close>, and
  public when it is valid and \<^verbatim>\<open>isPrivate\<close> is false of its normal form: the two tests
  of \<^verbatim>\<open>pickFirstPublic\<close>.\<close>

definition valid_candidate :: "string \<Rightarrow> bool" where
  "valid_candidate c = (net_isIP (normalize_ip c) \<noteq> 0)"

definition public_candidate :: "string \<Rightarrow> bool" where
  "public_candidate c = (net_isIP (normalize_ip c) \<noteq> 0 \<and> \<not> isPrivate (normalize_ip c))"

text \<open>The unwrapping of an IPv4-mapped address, as the specification words it: the prefix goes.\<close>

definition unwrap_mapped :: "string \<Rightarrow> string" where
  "unwrap_mapped a = (if startsWith a ''::ffff:'' then drop 7 a else a)"

text \<open>The number of colons in a string: the source tells an IPv4 address with a port from
  an IPv6 literal by whether a second colon follows the first.\<close>

definition colons :: "string \<Rightarrow> nat" where
  "colons t = length (filter (\<lambda>c. c = CHR '':'') t)"

text \<open>
  The IPv6 ranges of the classification, on the first 16-bit group of an address that
  does not begin with \<^verbatim>\<open>::\<close>: \<^verbatim>\<open>fe80::/10\<close> fixes its upper ten bits and
  \<^verbatim>\<open>fc00::/7\<close> its upper seven.
\<close>

definition first_group :: "string \<Rightarrow> nat" where
  "first_group s = digits_val 16 (takeWhile (\<lambda>c. c \<noteq> CHR '':'') s)"

definition in_fe80_10 :: "nat \<Rightarrow> bool" where
  "in_fe80_10 g = (g div 64 = 0xFE80 div 64)"

definition in_fc00_7 :: "nat \<Rightarrow> bool" where
  "in_fc00_7 g = (g div 512 = 0xFC00 div 512)"

section \<open>The admin session store (\<^verbatim>\<open>middleware/adminAuth.js\<close>)\<close>

text \<open>
  A session as \<^verbatim>\<open>authenticate\<close> builds it. A \<^verbatim>\<open>Date\<close> is its time value, the
  milliseconds since the epoch, an integer.
\<close>

record admin_session =
  session_id :: string
  session_createdAt :: int
  session_ip :: "string option"
  session_userAgent :: "string option"

text \<open>
  The module-level \<^verbatim>\<open>sessions\<close> is a JavaScript \<^verbatim>\<open>Map\<close>: an association list in
  insertion order. \<^verbatim>\<open>get\<close> is \<^const>\<open>map_of\<close>, \<^verbatim>\<open>set\<close> is \<^const>\<open>AList.update\<close>
  (in place for a key that is there, at the end for a new one) and \<^verbatim>\<open>delete\<close> is
  \<^const>\<open>AList.delete\<close>.
\<close>

type_synonym session_store = "(string \<times> admin_session) list"

text \<open>What the handlers read of a request: the cookie \<^verbatim>\<open>req.cookies?.admin_session\<close>,
  the header \<^verbatim>\<open>x-admin-session\<close>, the two fields of the body, \<^verbatim>\<open>req.ip\<close> and the
  \<^verbatim>\<open>User-Agent\<close> header.\<close>

record admin_request =
  cookie_admin_session :: "string option"
  header_x_admin_session :: "string option"
  body_username :: "string option"
  body_password :: "string option"
  admin_req_ip :: "string option"
  admin_req_userAgent :: "string option"

text \<open>\<^verbatim>\<open>res.status(code).json({success, message, sessionToken})\<close>, with the cookie the
  handler sets or clears.\<close>

datatype cookie_action = NoCookie | SetCookie string | ClearCookie

record response =
  res_status :: nat
  res_success :: bool
  res_message :: string
  res_sessionToken :: "string option"
  res_cookie :: cookie_action

definition json :: "nat \<Rightarrow> bool \<Rightarrow> string \<Rightarrow> response" where
  "json code ok msg =
     \<lparr>res_status = code, res_success = ok, res_message = msg, res_sessionToken = None,
      res_cookie = NoCookie\<rparr>"

text \<open>A middleware either answers or calls \<^verbatim>\<open>next()\<close> with \<^verbatim>\<open>req.adminSession\<close> set.\<close>

datatype auth_result = Answered response | Next admin_session

text \<open>\<^verbatim>\<open>a || b\<close> on two values that are strings or missing.\<close>

definition js_or_opt :: "string option \<Rightarrow> string option \<Rightarrow> string option" where
  "js_or_opt a b = (if truthy a then a else b)"

record admin_user =
  username :: string
  password :: string

text \<open>\<^verbatim>\<open>crypto.randomBytes(32).toString('hex')\<close>: the random bytes are an argument.\<close>

definition hex_digit :: "nat \<Rightarrow> char" where
  "hex_digit n = ''0123456789abcdef'' ! (n mod 16)"

definition generateSession :: "nat list \<Rightarrow> string" where
  "generateSession randomBytes = concat (map (\<lambda>b. [hex_digit (b div 16), hex_digit b]) randomBytes)"

definition authenticate ::
  "admin_user \<Rightarrow> int \<Rightarrow> nat list \<Rightarrow> admin_request \<Rightarrow> session_store \<Rightarrow> session_store \<times> response" where
  "authenticate adminUser now randomBytes req sessions =
     (if \<not> truthy (body_username req) \<or> \<not> truthy (body_password req) then
        (sessions, json 400 False ''Username and password are required'')
      else if \<not> (body_username req = Some (username adminUser)
                 \<and> body_password req = Some (password adminUser)) then
        (sessions, json 401 False ''Invalid credentials'')
      else
        let sessionToken = generateSession randomBytes;
            sessionData = \<lparr>session_id = sessionToken, session_createdAt = now,
                           session_ip = admin_req_ip req,
                           session_userAgent = admin_req_userAgent req\<rparr>
        in (AList.update sessionToken sessionData sessions,
            (json 200 True ''Authentication successful'')
              \<lparr>res_sessionToken := Some sessionToken, res_cookie := SetCookie sessionToken\<rparr>))"

definition requireAuth :: "int \<Rightarrow> admin_request \<Rightarrow> session_store \<Rightarrow> session_store \<times> auth_result" where
  "requireAuth now req sessions =
     (case js_or_opt (cookie_admin_session req) (header_x_admin_session req) of
        None \<Rightarrow> (sessions, Answered (json 401 False ''Authentication required''))
      | Some sessionToken \<Rightarrow>
          if sessionToken = [] then (sessions, Answered (json 401 False ''Authentication required''))
          else
            (case map_of sessions sessionToken of
               None \<Rightarrow> (sessions, Answered (json 401 False ''Invalid or expired session''))
             | Some session \<Rightarrow>
                 let sessionAge = now - session_createdAt session
                 in if sessionAge > 24 * 60 * 60 * 1000 then
                      (AList.delete sessionToken sessions,
                       Answered (json 401 False ''Session expired''))
                    else (sessions, Next session)))"

definition logout :: "admin_request \<Rightarrow> session_store \<Rightarrow> session_store \<times> response" where
  "logout req sessions =
     (case cookie_admin_session req of
        None \<Rightarrow> (sessions, json 200 True ''Logged out successfully'')
      | Some sessionToken \<Rightarrow>
          if sessionToken = [] then (sessions, json 200 True ''Logged out successfully'')
          else (AList.delete sessionToken sessions,
                (json 200 True ''Logged out successfully'') \<lparr>res_cookie := ClearCookie\<rparr>))"

text \<open>\<^verbatim>\<open>getActiveSessions\<close> answers with a copy of every stored session and their number.\<close>

definition getActiveSessions :: "session_store \<Rightarrow> admin_session list \<times> nat" where
  "getActiveSessions sessions =
     (let activeSessions =
            map (\<lambda>session. \<lparr>session_id = session_id session,
                              session_createdAt = session_createdAt session,
                              session_ip = session_ip session,
                              session_userAgent = session_userAgent session\<rparr>)
                (map snd sessions)
      in (activeSessions, length activeSessions))"

definition clearAllSessions :: "session_store \<Rightarrow> session_store \<times> nat" where
  "clearAllSessions sessions = ([], length sessions)"

text \<open>
  What \<^verbatim>\<open>authenticate\<close>, the only writer, guarantees of the store: every session is filed
  under its own identifier, which is not empty, and no key occurs twice.
\<close>

definition store_ok :: "session_store \<Rightarrow> bool" where
  "store_ok sessions =
     (list_all (\<lambda>(k, session). k \<noteq> [] \<and> session_id session = k) sessions
      \<and> distinct (map fst sessions))"

section \<open>Access keys (\<^verbatim>\<open>utils/keyUtils.js\<close>)\<close>

text \<open>
  A row of the key table, with the columns the helpers read. A timestamp column holds
  the text \<^verbatim>\<open>Date.prototype.toISOString\<close> gives; it is kept here as the time value in
  milliseconds. For the years 0000 to 9999 that text has a fixed width, and the comparison
  of two such strings in \<^verbatim>\<open>isKeyValid\<close> is the comparison of the time values.
\<close>

record access_key =
  key_id :: string
  user_id :: string
  status :: string
  created_at :: int
  expires_at :: int

text \<open>The argument of \<^verbatim>\<open>getExpirationDate\<close> can be any JavaScript value; \<open>JObject\<close> stands
  for every value whose \<^verbatim>\<open>typeof\<close> is neither of the others'.\<close>

datatype js_value = JUndefined | JNull | JBool bool | JNumber js_number | JString string | JObject

datatype js_error = Error string | RangeError string

text \<open>
  \<^verbatim>\<open>getExpirationDate(hours = 24)\<close>, with the clock as an argument. \<^verbatim>\<open>setHours\<close>
  truncates the hour to an integer: for a positive \<open>hours\<close> the new hour is the old one
  plus \<open>\<lfloor>hours\<rfloor>\<close>, which moves the time value by that many hours in a time zone whose
  offset does not change in between. A time value beyond \<open>8.64e15\<close> is an invalid date, on
  which \<^verbatim>\<open>toISOString\<close> throws a \<^verbatim>\<open>RangeError\<close>, as it does for \<open>NaN\<close> and
  \<open>Infinity\<close> hours.
\<close>

definition getExpirationDate :: "int \<Rightarrow> js_value \<Rightarrow> js_error + int" where
  "getExpirationDate now arg =
     (let hours = (if arg = JUndefined then JNumber (Finite 24) else arg)
      in case hours of
           JNumber n \<Rightarrow>
             if num_le n 0 then Inl (Error ''Hours must be a positive number'')
             else (case n of
                     Finite h \<Rightarrow>
                       let expiry = now + \<lfloor>h\<rfloor> * 3600000
                       in if \<bar>expiry\<bar> \<le> 8640000000000000 then Inr expiry
                          else Inl (RangeError ''Invalid time value'')
                   | _ \<Rightarrow> Inl (RangeError ''Invalid time value''))
         | _ \<Rightarrow> Inl (Error ''Hours must be a positive number''))"

text \<open>\<^verbatim>\<open>isKeyValid(key)\<close>, with the clock as an argument; \<open>None\<close> is a missing row.\<close>

definition isKeyValid :: "int \<Rightarrow> access_key option \<Rightarrow> bool" where
  "isKeyValid now key =
     (case key of
        None \<Rightarrow> False
      | Some k \<Rightarrow> status k = ''active'' \<and> expires_at k > now)"

subsection \<open>The store operations, from the specification\<close>

text \<open>
  \<^verbatim>\<open>services/keyService.js\<close>, which holds the store operations, and the configuration
  module are not among the sources. The two operations the claims speak of are modelled
  from the specification, on a store that maps an identifier to its row.
\<close>

type_synonym key_store = "string \<Rightarrow> access_key option"

datatype key_error = InvalidParameter | Thrown js_error

datatype outcome = Valid | Expired | Revoked | NotFound

text \<open>
  Modelled from the spec: \<^verbatim>\<open>create\<close> of the key service is missing. The
  specification: \<^verbatim>\<open>create(ownerId, ttlHours)\<close> fails with \<^verbatim>\<open>InvalidParameter\<close> if
  \<^verbatim>\<open>ttlHours\<close> is not a positive number or exceeds the configured maximum; it
  generates a fresh unique id, sets \<^verbatim>\<open>createdAt = now\<close>,
  \<^verbatim>\<open>expiresAt = now + ttlHours\<close>, \<^verbatim>\<open>status = active\<close>, and persists the record.
  The expiry is computed by the source's \<^verbatim>\<open>getExpirationDate\<close>; \<open>max_key_hours\<close> is
  the configured \<^verbatim>\<open>MAX_KEY_HOURS\<close> and \<open>new_id\<close> the generated identifier.
\<close>

definition create ::
  "rat \<Rightarrow> int \<Rightarrow> string \<Rightarrow> key_store \<Rightarrow> string \<Rightarrow> js_value \<Rightarrow> key_store \<times> (key_error + access_key)" where
  "create max_key_hours now new_id store ownerId ttlHours =
     (case ttlHours of
        JNumber (Finite h) \<Rightarrow>
          if h \<le> 0 \<or> max_key_hours < h then (store, Inl InvalidParameter)
          else (case getExpirationDate now ttlHours of
                  Inl e \<Rightarrow> (store, Inl (Thrown e))
                | Inr expiresAt \<Rightarrow>
                    let k = \<lparr>key_id = new_id, user_id = ownerId, status = ''active'',
                             created_at = now, expires_at = expiresAt\<rparr>
                    in (store(new_id \<mapsto> k), Inr k))
      | _ \<Rightarrow> (store, Inl InvalidParameter))"

text \<open>
  Modelled from the spec: \<^verbatim>\<open>validate\<close> of the key service is missing. The
  specification: a pure read that fetches the record; if absent, \<^verbatim>\<open>NotFound\<close>; if
  \<^verbatim>\<open>status = revoked\<close>, \<^verbatim>\<open>Revoked\<close>; else if \<^verbatim>\<open>expiresAt <= now\<close>,
  \<^verbatim>\<open>Expired\<close>; else \<^verbatim>\<open>Valid\<close>.
\<close>

definition validate :: "int \<Rightarrow> key_store \<Rightarrow> string \<Rightarrow> outcome" where
  "validate now store ident =
     (case store ident of
        None \<Rightarrow> NotFound
      | Some k \<Rightarrow>
          if status k = ''revoked'' then Revoked
          else if expires_at k \<le> now then Expired
          else Valid)"

section \<open>Properties of the resolver\<close>

lemma net_isIP_empty: "net_isIP [] = 0"
  by (simp add: net_isIP_def isIPv4_def isIPv6_def groups_def)

lemma first_valid_nonempty: "first_valid list = Some ip \<Longrightarrow> ip \<noteq> []"
  by (induction list) (auto simp: Let_def net_isIP_empty split: if_splits)

lemma first_public_nonempty: "first_public list = Some ip \<Longrightarrow> ip \<noteq> []"
  by (induction list) (auto simp: Let_def net_isIP_empty split: if_splits)

lemma first_public_valid: "first_valid list = None \<Longrightarrow> first_public list = None"
  by (induction list) (auto simp: Let_def split: if_splits)

lemma gv_normalize_eq: "gv_normalize = normalize_ip"
  by (rule ext) (simp add: gv_normalize_def normalize_ip_def)

lemma gv_isPrivate_eq: "gv_isPrivate = isPrivate"
  unfolding gv_isPrivate_def isPrivate_def Let_def by (rule ext) meson

lemma gv_first_public_eq: "gv_first_public list = first_public list"
  by (induction list) (simp_all add: gv_normalize_eq gv_isPrivate_eq Let_def)

lemma gv_first_valid_eq: "gv_first_valid list = first_valid list"
  by (induction list) (simp_all add: gv_normalize_eq Let_def)

lemma gv_pickFirstPublic_eq: "gv_pickFirstPublic list = pickFirstPublic list"
  by (simp add: gv_pickFirstPublic_def pickFirstPublic_def gv_first_public_eq gv_first_valid_eq
      split: option.splits)

lemma gv_candidates_eq: "gv_candidates req = candidates req"
  by (simp add: gv_candidates_def candidates_def forwarded_candidates_def direct_candidates_def
      xff_candidates_def fallbacks_def directHeaders_def Let_def)

text \<open>
  C10. The two resolver paths agree: when the IP preference is not \<^verbatim>\<open>'private'\<close>,
  \<^verbatim>\<open>getClientIp(req)\<close> is \<^verbatim>\<open>getIpVariants(req).publicIp\<close> when that is not null,
  otherwise \<^verbatim>\<open>getIpVariants(req).privateIp\<close> when that is not null, and otherwise
  \<^verbatim>\<open>"unknown"\<close>.
\<close>

theorem getClientIp_agrees_with_getIpVariants:
  assumes "ipPreference \<noteq> Some ''private''"
  shows "getClientIp ipPreference req =
           (case publicIp (getIpVariants req) of
              Some p \<Rightarrow> p
            | None \<Rightarrow> (case privateIp (getIpVariants req) of Some q \<Rightarrow> q | None \<Rightarrow> ''unknown''))"
proof (cases "first_valid (candidates req)")
  case None
  then have "pickFirstPublic (candidates req) = []"
    by (simp add: pickFirstPublic_def first_public_valid)
  with None assms show ?thesis
    by (simp add: getClientIp_def getIpVariants_def gv_pickFirstPublic_eq gv_first_valid_eq
        gv_candidates_eq js_or_def)
next
  case (Some v)
  then have v: "v \<noteq> []"
    by (rule first_valid_nonempty)
  show ?thesis
  proof (cases "first_public (candidates req)")
    case None
    with Some v assms show ?thesis
      by (simp add: getClientIp_def getIpVariants_def gv_pickFirstPublic_eq gv_first_valid_eq
          gv_candidates_eq js_or_def pickFirstPublic_def)
  next
    case (Some p)
    then have "p \<noteq> []"
      by (rule first_public_nonempty)
    with Some \<open>first_valid (candidates req) = Some v\<close> v assms show ?thesis
      by (simp add: getClientIp_def getIpVariants_def gv_pickFirstPublic_eq gv_first_valid_eq
          gv_candidates_eq js_or_def pickFirstPublic_def)
  qed
qed

theorem getClientIp_agrees_with_getIpVariants_witness:
  "(None :: string option) \<noteq> Some ''private''
   \<and> publicIp (getIpVariants \<lparr>req_headers = [''x-forwarded-for'' \<mapsto> ''10.0.0.1, 203.0.113.5''],
         req_ip = Some ''::1'', connection_remoteAddress = None, socket_remoteAddress = None,
         connection_socket_remoteAddress = None\<rparr>) = Some ''203.0.113.5''
   \<and> getClientIp None \<lparr>req_headers = [''x-forwarded-for'' \<mapsto> ''10.0.0.1, 203.0.113.5''],
         req_ip = Some ''::1'', connection_remoteAddress = None, socket_remoteAddress = None,
         connection_socket_remoteAddress = None\<rparr> = ''203.0.113.5''"
proof -
  let ?req = "\<lparr>req_headers = [''x-forwarded-for'' \<mapsto> ''10.0.0.1, 203.0.113.5''],
         req_ip = Some ''::1'', connection_remoteAddress = None, socket_remoteAddress = None,
         connection_socket_remoteAddress = None\<rparr>"
  have h: "(None :: string option) \<noteq> Some ''private''"
    by simp
  have p: "publicIp (getIpVariants ?req) = Some ''203.0.113.5''"
    by code_simp
  from getClientIp_agrees_with_getIpVariants [OF h, of ?req] p h show ?thesis
    by simp
qed

subsection \<open>The selection loops as searches\<close>

lemma first_valid_find: "first_valid list = map_option normalize_ip (find valid_candidate list)"
  by (induction list) (simp_all add: Let_def valid_candidate_def)

lemma first_public_find: "first_public list = map_option normalize_ip (find public_candidate list)"
  by (induction list) (simp_all add: Let_def public_candidate_def)

lemma find_append_list:
  "find P (xs @ ys) = (case find P xs of Some x \<Rightarrow> Some x | None \<Rightarrow> find P ys)"
  by (induction xs) simp_all

lemma valid_candidate_nonempty: "valid_candidate c \<Longrightarrow> normalize_ip c \<noteq> []"
  using net_isIP_empty by (auto simp: valid_candidate_def)

lemma getClientIp_no_public:
  assumes "first_public (candidates req) = None"
  shows "getClientIp ipPreference req =
           (case find valid_candidate (candidates req) of
              Some c \<Rightarrow> normalize_ip c
            | None \<Rightarrow> ''unknown'')"
proof (cases "find valid_candidate (candidates req)")
  case None
  with assms show ?thesis
    by (simp add: getClientIp_def pickFirstPublic_def first_valid_find js_or_def)
next
  case (Some c)
  then have "valid_candidate c"
    by (auto simp: find_Some_iff)
  then have "normalize_ip c \<noteq> []"
    by (rule valid_candidate_nonempty)
  with Some assms show ?thesis
    by (simp add: getClientIp_def pickFirstPublic_def first_valid_find js_or_def)
qed

lemma getClientIp_first_candidate:
  assumes c: "candidates req = c # rest" and p: "public_candidate c"
  shows "getClientIp ipPreference req = normalize_ip c"
proof -
  from p have v: "valid_candidate c"
    by (simp add: public_candidate_def valid_candidate_def)
  then have n: "normalize_ip c \<noteq> []"
    by (rule valid_candidate_nonempty)
  from c p v n show ?thesis
    by (simp add: getClientIp_def pickFirstPublic_def first_valid_find first_public_find js_or_def)
qed

lemma no_headers_candidates:
  assumes "req_headers req = Map.empty"
  shows "candidates req = fallbacks req"
  using assms
  by (simp add: candidates_def forwarded_candidates_def direct_candidates_def xff_candidates_def
      directHeaders_def)

lemma loopback_facts:
  "normalize_ip ''::1'' = ''::1''" "net_isIP ''::1'' = 6" "isPrivate ''::1''"
  by code_simp+

text \<open>
  C8. If no candidate is both syntactically valid and classified public, the resolver
  returns the first syntactically valid candidate (in its normal form) whatever its
  classification, and \<^verbatim>\<open>"unknown"\<close> if no candidate is valid at all. With no headers
  and only the loopback address \<^verbatim>\<open>"::1"\<close> as transport address it returns \<^verbatim>\<open>"::1"\<close>.
\<close>

theorem getClientIp_fallback:
  "((\<forall>c \<in> set (candidates req). \<not> public_candidate c) \<longrightarrow>
      getClientIp ipPreference req =
        (case find valid_candidate (candidates req) of
           Some c \<Rightarrow> normalize_ip c
         | None \<Rightarrow> ''unknown''))
   \<and> (req_headers req = Map.empty \<and> set (fallbacks req) = {''::1''} \<longrightarrow>
        getClientIp ipPreference req = ''::1'')"
proof (intro conjI impI)
  assume "\<forall>c \<in> set (candidates req). \<not> public_candidate c"
  then have "first_public (candidates req) = None"
    by (simp add: first_public_find find_None_iff)
  then show "getClientIp ipPreference req =
        (case find valid_candidate (candidates req) of
           Some c \<Rightarrow> normalize_ip c
         | None \<Rightarrow> ''unknown'')"
    by (rule getClientIp_no_public)
next
  assume a: "req_headers req = Map.empty \<and> set (fallbacks req) = {''::1''}"
  then have c: "candidates req = fallbacks req"
    by (simp add: no_headers_candidates)
  from a obtain x xs where l: "fallbacks req = x # xs"
    by (cases "fallbacks req") auto
  with a have x: "x = ''::1''"
    by auto
  have "\<not> public_candidate ''::1''"
    by (simp add: public_candidate_def loopback_facts)
  with a have "first_public (candidates req) = None"
    by (auto simp: first_public_find find_None_iff c)
  then have "getClientIp ipPreference req =
        (case find valid_candidate (candidates req) of
           Some c \<Rightarrow> normalize_ip c
         | None \<Rightarrow> ''unknown'')"
    by (rule getClientIp_no_public)
  moreover have "valid_candidate ''::1''"
    by (simp add: valid_candidate_def loopback_facts)
  ultimately show "getClientIp ipPreference req = ''::1''"
    by (simp add: c l x loopback_facts)
qed

theorem getClientIp_fallback_witness:
  "(\<forall>ipPreference.
      getClientIp ipPreference \<lparr>req_headers = Map.empty, req_ip = Some ''::1'',
        connection_remoteAddress = Some ''::1'', socket_remoteAddress = Some ''::1'',
        connection_socket_remoteAddress = None\<rparr> = ''::1'')
   \<and> (\<forall>ipPreference.
      getClientIp ipPreference \<lparr>req_headers = [''x-real-ip'' \<mapsto> ''10.0.0.7, junk''],
        req_ip = Some ''[fe80::1]:443'', connection_remoteAddress = Some ''192.168.1.9'',
        socket_remoteAddress = None, connection_socket_remoteAddress = None\<rparr> = ''fe80::1'')
   \<and> (\<forall>ipPreference.
      getClientIp ipPreference \<lparr>req_headers = [''x-real-ip'' \<mapsto> ''junk''],
        req_ip = None, connection_remoteAddress = None,
        socket_remoteAddress = None, connection_socket_remoteAddress = None\<rparr> = ''unknown'')"
proof -
  let ?r1 = "\<lparr>req_headers = Map.empty, req_ip = Some ''::1'',
        connection_remoteAddress = Some ''::1'', socket_remoteAddress = Some ''::1'',
        connection_socket_remoteAddress = None\<rparr>"
  let ?r2 = "\<lparr>req_headers = [''x-real-ip'' \<mapsto> ''10.0.0.7, junk''],
        req_ip = Some ''[fe80::1]:443'', connection_remoteAddress = Some ''192.168.1.9'',
        socket_remoteAddress = None, connection_socket_remoteAddress = None\<rparr>"
  let ?r3 = "\<lparr>req_headers = [''x-real-ip'' \<mapsto> ''junk''],
        req_ip = None, connection_remoteAddress = None,
        socket_remoteAddress = None, connection_socket_remoteAddress = None\<rparr>"
  have f1: "req_headers ?r1 = Map.empty \<and> set (fallbacks ?r1) = {''::1''}"
    by (simp add: fallbacks_def filter_Boolean_def)
  have c2: "candidates ?r2 = [''10.0.0.7, junk'', ''[fe80::1]:443'', ''192.168.1.9'']"
    by code_simp
  have p2: "map public_candidate [''10.0.0.7, junk'', ''[fe80::1]:443'', ''192.168.1.9'']
              = [False, False, False]"
    by code_simp
  have v2: "find valid_candidate [''10.0.0.7, junk'', ''[fe80::1]:443'', ''192.168.1.9'']
              = Some ''[fe80::1]:443''"
    by code_simp
  have n2: "normalize_ip ''[fe80::1]:443'' = ''fe80::1''"
    by code_simp
  have c3: "candidates ?r3 = [''junk'']"
    by code_simp
  have p3: "public_candidate ''junk'' = False" "valid_candidate ''junk'' = False"
    by code_simp+
  show ?thesis
    using getClientIp_fallback [of ?r1] f1 getClientIp_fallback [of ?r2] c2 p2 v2 n2
      getClientIp_fallback [of ?r3] c3 p3
    by simp
qed

subsection \<open>Normalization\<close>

lemma dropWhile_split:
  assumes "c \<in> set t"
  shows "dropWhile (\<lambda>x. x \<noteq> c) t = c # drop (Suc (length (takeWhile (\<lambda>x. x \<noteq> c) t))) t"
proof -
  from assms have "dropWhile (\<lambda>x. x \<noteq> c) t \<noteq> []"
    by simp
  then obtain y ys where d: "dropWhile (\<lambda>x. x \<noteq> c) t = y # ys"
    by (cases "dropWhile (\<lambda>x. x \<noteq> c) t") auto
  then have "y = c"
    using hd_dropWhile [of "\<lambda>x. x \<noteq> c" t] by auto
  moreover have "ys = drop (Suc (length (takeWhile (\<lambda>x. x \<noteq> c) t))) t"
    using d by (metis drop_Suc dropWhile_eq_drop list.sel(3) tl_drop)
  ultimately show ?thesis
    using d by simp
qed

lemma colons_after_first:
  assumes "CHR '':'' \<in> set t"
  shows "colons t = Suc (colons (drop (Suc (length (takeWhile (\<lambda>x. x \<noteq> CHR '':'') t))) t))"
proof -
  have "colons t = colons (takeWhile (\<lambda>x. x \<noteq> CHR '':'') t @ dropWhile (\<lambda>x. x \<noteq> CHR '':'') t)"
    by simp
  also have "\<dots> = colons (takeWhile (\<lambda>x. x \<noteq> CHR '':'') t) + colons (dropWhile (\<lambda>x. x \<noteq> CHR '':'') t)"
    unfolding colons_def by (simp only: filter_append length_append)
  also have "colons (takeWhile (\<lambda>x. x \<noteq> CHR '':'') t) = 0"
    unfolding colons_def by (auto simp: filter_empty_conv dest: set_takeWhileD)
  also have "colons (dropWhile (\<lambda>x. x \<noteq> CHR '':'') t)
      = Suc (colons (drop (Suc (length (takeWhile (\<lambda>x. x \<noteq> CHR '':'') t))) t))"
    by (subst dropWhile_split [OF assms]) (simp add: colons_def)
  finally show ?thesis
    by simp
qed

lemma colons_zero: "colons t = 0 \<longleftrightarrow> CHR '':'' \<notin> set t"
  by (auto simp: colons_def filter_empty_conv)

lemma not_mapped_without_colon: "CHR '':'' \<notin> set a \<Longrightarrow> \<not> startsWith a ''::ffff:''"
  unfolding startsWith_def by (metis in_set_takeD list.set_intros(1))

lemma replace_first_prefix:
  "startsWith a p \<Longrightarrow> p \<noteq> [] \<Longrightarrow> replace_first p [] a = drop (length p) a"
  by (cases a) (auto simp: startsWith_def)

lemma unwrap_step:
  "(if startsWith a ''::ffff:'' then replace_first ''::ffff:'' [] a else a) = unwrap_mapped a"
  by (auto simp: unwrap_mapped_def replace_first_prefix eval_nat_numeral)

lemma normalize_ip_trimmed:
  "normalize_ip s =
     (let ip = js_trim s;
          ip1 =
              (if startsWith ip ''['' then
                 (case indexOf ip CHR '']'' 0 of Some e \<Rightarrow> slice ip 1 e | None \<Rightarrow> ip)
               else
                 (case indexOf ip CHR '':'' 0 of
                    Some colonIdx \<Rightarrow>
                      if indexOf ip CHR '':'' (colonIdx + 1) = None then slice ip 0 colonIdx else ip
                  | None \<Rightarrow> ip))
      in unwrap_mapped ip1)"
proof (cases "s = []")
  case True
  then show ?thesis
    by (simp add: normalize_ip_def js_trim_def startsWith_def indexOf_def unwrap_mapped_def)
next
  case False
  then show ?thesis
    by (simp add: normalize_ip_def Let_def unwrap_step)
qed

lemma js_trim_idem: "js_trim (js_trim s) = js_trim s"
proof -
  let ?a = "dropWhile js_whitespace s"
  let ?b = "dropWhile js_whitespace (rev ?a)"
  have 1: "dropWhile js_whitespace (rev ?b) = rev ?b"
  proof (cases "?b = []")
    case True
    then show ?thesis
      by (metis dropWhile.simps(1) rev.simps(1))
  next
    case False
    then have "\<not> js_whitespace (hd ?b)"
      by (rule hd_dropWhile)
    have ne: "?a \<noteq> []"
    proof
      assume "?a = []"
      then have "?b = []" by (simp only: rev.simps dropWhile.simps)
      with False show False by simp
    qed
    then have "\<not> js_whitespace (hd ?a)"
      by (rule hd_dropWhile)
    obtain u where u: "rev ?a = u @ ?b"
      by (metis takeWhile_dropWhile_id)
    then have "?a = rev ?b @ rev u"
      by (metis rev_append rev_rev_ident)
    with False have "hd (rev ?b) = hd ?a"
      by (metis hd_append2 rev_is_Nil_conv)
    with \<open>\<not> js_whitespace (hd ?a)\<close> show ?thesis
      by (simp add: dropWhile_eq_self_iff)
  qed
  show ?thesis
    unfolding js_trim_def by (simp add: 1)
qed

lemma normalize_ip_trim: "normalize_ip s = normalize_ip (js_trim s)"
  by (simp add: normalize_ip_trimmed js_trim_idem)

lemma normalize_ip_bracketed:
  assumes t: "js_trim s = CHR ''['' # a @ CHR '']'' # rest" and a: "CHR '']'' \<notin> set a"
  shows "normalize_ip s = unwrap_mapped a"
proof -
  from a have "takeWhile (\<lambda>x. x \<noteq> CHR '']'') (CHR ''['' # a @ CHR '']'' # rest) = CHR ''['' # a"
    by (auto simp: takeWhile_tail)
  then have "indexOf (js_trim s) CHR '']'' 0 = Some (Suc (length a))"
    by (simp add: indexOf_def t)
  moreover have "slice (js_trim s) 1 (Suc (length a)) = a"
    by (simp add: slice_def t)
  moreover have "startsWith (js_trim s) ''[''"
    by (simp add: startsWith_def t)
  ultimately show ?thesis
    by (simp add: normalize_ip_trimmed)
qed

lemma normalize_ip_one_colon:
  assumes b: "\<not> startsWith (js_trim s) ''[''" and c: "colons (js_trim s) = 1"
  shows "normalize_ip s = takeWhile (\<lambda>c. c \<noteq> CHR '':'') (js_trim s)"
proof -
  let ?t = "js_trim s"
  let ?k = "length (takeWhile (\<lambda>x. x \<noteq> CHR '':'') ?t)"
  from c have m: "CHR '':'' \<in> set ?t"
    using colons_zero [of ?t] by auto
  then have "colons (drop (Suc ?k) ?t) = 0"
    using colons_after_first [of ?t] c by simp
  then have n: "CHR '':'' \<notin> set (drop (Suc ?k) ?t)"
    by (simp add: colons_zero)
  have i: "indexOf ?t CHR '':'' 0 = Some ?k"
    using m by (simp add: indexOf_def)
  have j: "indexOf ?t CHR '':'' (?k + 1) = None"
    using n by (simp add: indexOf_def)
  have sl: "slice ?t 0 ?k = takeWhile (\<lambda>x. x \<noteq> CHR '':'') ?t"
    by (simp add: slice_def takeWhile_eq_take [symmetric])
  have "CHR '':'' \<notin> set (takeWhile (\<lambda>x. x \<noteq> CHR '':'') ?t)"
    by (auto dest: set_takeWhileD)
  then have "unwrap_mapped (takeWhile (\<lambda>x. x \<noteq> CHR '':'') ?t) = takeWhile (\<lambda>x. x \<noteq> CHR '':'') ?t"
    by (simp add: unwrap_mapped_def not_mapped_without_colon)
  with b i j sl show ?thesis
    by (simp add: normalize_ip_trimmed)
qed

lemma normalize_ip_more_colons:
  assumes b: "\<not> startsWith (js_trim s) ''[''" and c: "colons (js_trim s) \<noteq> 1"
  shows "normalize_ip s = unwrap_mapped (js_trim s)"
proof (cases "CHR '':'' \<in> set (js_trim s)")
  case False
  then have "indexOf (js_trim s) CHR '':'' 0 = None"
    by (simp add: indexOf_def)
  with b show ?thesis
    by (simp add: normalize_ip_trimmed)
next
  case True
  let ?t = "js_trim s"
  let ?k = "length (takeWhile (\<lambda>x. x \<noteq> CHR '':'') ?t)"
  from True c have "colons (drop (Suc ?k) ?t) \<noteq> 0"
    using colons_after_first [of ?t] by simp
  then have n: "CHR '':'' \<in> set (drop (Suc ?k) ?t)"
    by (simp add: colons_zero)
  have i: "indexOf ?t CHR '':'' 0 = Some ?k"
    using True by (simp add: indexOf_def)
  obtain q where j: "indexOf ?t CHR '':'' (?k + 1) = Some q"
    using n by (simp add: indexOf_def)
  with b i show ?thesis
    by (simp add: normalize_ip_trimmed)
qed

lemma forwarded_candidates_cong:
  "h ''forwarded'' = h' ''forwarded'' \<Longrightarrow> forwarded_candidates h = forwarded_candidates h'"
  by (simp add: forwarded_candidates_def)

lemma xff_candidates_cong:
  "h ''x-forwarded-for'' = h' ''x-forwarded-for'' \<Longrightarrow> xff_candidates h = xff_candidates h'"
  by (simp add: xff_candidates_def)

lemma forwarded_example:
  "forwarded_candidates [''forwarded'' \<mapsto> ''for='' @ [CHR 0x22] @ ''198.51.100.2:1234'' @ [CHR 0x22]]
     = [''198.51.100.2:1234'']"
  by code_simp

lemma forwarded_example_facts:
  "public_candidate ''198.51.100.2:1234''" "normalize_ip ''198.51.100.2:1234'' = ''198.51.100.2''"
  by code_simp+

text \<open>
  C7. Normalization works on the trimmed candidate. A bracketed candidate loses its
  brackets and whatever follows the closing one; otherwise a candidate with exactly one
  colon loses the colon and what follows it, and one with several colons is left as it is;
  in each case a leading \<^verbatim>\<open>::ffff:\<close> is then removed. With the header
  \<^verbatim>\<open>Forwarded: for="198.51.100.2:1234"\<close> the resolver returns \<^verbatim>\<open>"198.51.100.2"\<close>.
\<close>

theorem normalize_ip_cases:
  "normalize_ip s = normalize_ip (js_trim s)
   \<and> (js_trim s = CHR ''['' # a @ CHR '']'' # rest \<and> CHR '']'' \<notin> set a \<longrightarrow>
        normalize_ip s = unwrap_mapped a)
   \<and> (\<not> startsWith (js_trim s) ''['' \<and> colons (js_trim s) = 1 \<longrightarrow>
        normalize_ip s = takeWhile (\<lambda>c. c \<noteq> CHR '':'') (js_trim s))
   \<and> (\<not> startsWith (js_trim s) ''['' \<and> 2 \<le> colons (js_trim s) \<longrightarrow>
        normalize_ip s = unwrap_mapped (js_trim s))
   \<and> unwrap_mapped (''::ffff:'' @ v) = v
   \<and> (req_headers req ''forwarded'' = Some (''for='' @ [CHR 0x22] @ ''198.51.100.2:1234'' @ [CHR 0x22]) \<longrightarrow>
        getClientIp ipPreference req = ''198.51.100.2'')"
proof (intro conjI impI)
  show "normalize_ip s = normalize_ip (js_trim s)"
    by (rule normalize_ip_trim)
next
  assume "js_trim s = CHR ''['' # a @ CHR '']'' # rest \<and> CHR '']'' \<notin> set a"
  then show "normalize_ip s = unwrap_mapped a"
    by (simp add: normalize_ip_bracketed)
next
  assume "\<not> startsWith (js_trim s) ''['' \<and> colons (js_trim s) = 1"
  then show "normalize_ip s = takeWhile (\<lambda>c. c \<noteq> CHR '':'') (js_trim s)"
    by (simp add: normalize_ip_one_colon)
next
  assume "\<not> startsWith (js_trim s) ''['' \<and> 2 \<le> colons (js_trim s)"
  then show "normalize_ip s = unwrap_mapped (js_trim s)"
    by (simp add: normalize_ip_more_colons)
next
  show "unwrap_mapped (''::ffff:'' @ v) = v"
    by (simp add: unwrap_mapped_def startsWith_def)
next
  assume h: "req_headers req ''forwarded'' = Some (''for='' @ [CHR 0x22] @ ''198.51.100.2:1234'' @ [CHR 0x22])"
  have "forwarded_candidates (req_headers req)
      = forwarded_candidates [''forwarded'' \<mapsto> ''for='' @ [CHR 0x22] @ ''198.51.100.2:1234'' @ [CHR 0x22]]"
    by (rule forwarded_candidates_cong) (simp add: h)
  also note forwarded_example
  finally have "candidates req = ''198.51.100.2:1234'' #
      (direct_candidates (req_headers req) @ xff_candidates (req_headers req) @ fallbacks req)"
    by (simp add: candidates_def)
  then have "getClientIp ipPreference req = normalize_ip ''198.51.100.2:1234''"
    using forwarded_example_facts(1) by (rule getClientIp_first_candidate)
  then show "getClientIp ipPreference req = ''198.51.100.2''"
    by (simp only: forwarded_example_facts(2))
qed

theorem normalize_ip_cases_witness:
  "normalize_ip '' [::ffff:192.0.2.7]:8080 '' = ''192.0.2.7''
   \<and> normalize_ip ''192.0.2.7:443'' = ''192.0.2.7''
   \<and> normalize_ip ''2001:db8::1'' = ''2001:db8::1''
   \<and> (\<forall>ipPreference.
        getClientIp ipPreference
          \<lparr>req_headers = [''forwarded'' \<mapsto> ''for='' @ [CHR 0x22] @ ''198.51.100.2:1234'' @ [CHR 0x22]],
           req_ip = Some ''::1'', connection_remoteAddress = None, socket_remoteAddress = None,
           connection_socket_remoteAddress = None\<rparr> = ''198.51.100.2'')"
proof -
  have h1: "js_trim '' [::ffff:192.0.2.7]:8080 '' = CHR ''['' # ''::ffff:192.0.2.7'' @ CHR '']'' # '':8080''
      \<and> CHR '']'' \<notin> set ''::ffff:192.0.2.7''"
    by code_simp
  have u1: "unwrap_mapped ''::ffff:192.0.2.7'' = ''192.0.2.7''"
    by code_simp
  have h2: "\<not> startsWith (js_trim ''192.0.2.7:443'') ''['' \<and> colons (js_trim ''192.0.2.7:443'') = 1"
    by code_simp
  have u2: "takeWhile (\<lambda>c. c \<noteq> CHR '':'') (js_trim ''192.0.2.7:443'') = ''192.0.2.7''"
    by code_simp
  have h3: "\<not> startsWith (js_trim ''2001:db8::1'') ''['' \<and> 2 \<le> colons (js_trim ''2001:db8::1'')"
    by code_simp
  have u3: "unwrap_mapped (js_trim ''2001:db8::1'') = ''2001:db8::1''"
    by code_simp
  let ?req = "\<lparr>req_headers = [''forwarded'' \<mapsto> ''for='' @ [CHR 0x22] @ ''198.51.100.2:1234'' @ [CHR 0x22]],
           req_ip = Some ''::1'', connection_remoteAddress = None, socket_remoteAddress = None,
           connection_socket_remoteAddress = None\<rparr>"
  have h4: "req_headers ?req ''forwarded'' = Some (''for='' @ [CHR 0x22] @ ''198.51.100.2:1234'' @ [CHR 0x22])"
    by simp
  from normalize_ip_cases [of "'' [::ffff:192.0.2.7]:8080 ''" "''::ffff:192.0.2.7''" "'':8080''"] h1
  have 1: "normalize_ip '' [::ffff:192.0.2.7]:8080 '' = unwrap_mapped ''::ffff:192.0.2.7''"
    by blast
  from normalize_ip_cases [of "''192.0.2.7:443''"] h2
  have 2: "normalize_ip ''192.0.2.7:443'' = takeWhile (\<lambda>c. c \<noteq> CHR '':'') (js_trim ''192.0.2.7:443'')"
    by blast
  from normalize_ip_cases [of "''2001:db8::1''"] h3
  have 3: "normalize_ip ''2001:db8::1'' = unwrap_mapped (js_trim ''2001:db8::1'')"
    by blast
  have 4: "getClientIp ipPreference ?req = ''198.51.100.2''" for ipPreference
    using normalize_ip_cases [of _ _ _ _ ?req ipPreference] h4 by blast
  from 1 2 3 4 show ?thesis
    by (simp only: u1 u2 u3 simp_thms)
qed

subsection \<open>X-Forwarded-For\<close>

lemma xff_example:
  "xff_candidates [''x-forwarded-for'' \<mapsto> ''203.0.113.5, 10.0.0.1''] = [''203.0.113.5'', ''10.0.0.1'']"
  by code_simp

lemma xff_example_facts:
  "public_candidate ''203.0.113.5''" "normalize_ip ''203.0.113.5'' = ''203.0.113.5''"
  by code_simp+

lemma xff_candidates_entries:
  "h ''x-forwarded-for'' = Some xff \<Longrightarrow>
     xff_candidates h = filter (\<lambda>s. s \<noteq> []) (map js_trim (js_split CHR '','' xff))"
  by (simp add: xff_candidates_def js_trim_def)

lemma direct_candidates_none:
  "\<forall>h \<in> set directHeaders. headers h = None \<Longrightarrow> direct_candidates headers = []"
  by (simp add: direct_candidates_def directHeaders_def)

text \<open>
  C6, as the claim states it, fails when the configuration prefers private addresses:
  with \<^verbatim>\<open>ipPreference = 'private'\<close>, no higher-priority header and
  \<^verbatim>\<open>X-Forwarded-For: 10.0.0.1, 203.0.113.5\<close>, the leftmost valid public entry is
  \<^verbatim>\<open>203.0.113.5\<close> and the resolver returns \<^verbatim>\<open>10.0.0.1\<close>.
\<close>

theorem xff_leftmost_public_counterexample:
  "forwarded_candidates (req_headers
       \<lparr>req_headers = [''x-forwarded-for'' \<mapsto> ''10.0.0.1, 203.0.113.5''], req_ip = None,
        connection_remoteAddress = None, socket_remoteAddress = None,
        connection_socket_remoteAddress = None\<rparr>) = []
   \<and> direct_candidates (req_headers
       \<lparr>req_headers = [''x-forwarded-for'' \<mapsto> ''10.0.0.1, 203.0.113.5''], req_ip = None,
        connection_remoteAddress = None, socket_remoteAddress = None,
        connection_socket_remoteAddress = None\<rparr>) = []
   \<and> xff_candidates (req_headers
       \<lparr>req_headers = [''x-forwarded-for'' \<mapsto> ''10.0.0.1, 203.0.113.5''], req_ip = None,
        connection_remoteAddress = None, socket_remoteAddress = None,
        connection_socket_remoteAddress = None\<rparr>) = [''10.0.0.1'', ''203.0.113.5'']
   \<and> find public_candidate [''10.0.0.1'', ''203.0.113.5''] = Some ''203.0.113.5''
   \<and> getClientIp (Some ''private'')
       \<lparr>req_headers = [''x-forwarded-for'' \<mapsto> ''10.0.0.1, 203.0.113.5''], req_ip = None,
        connection_remoteAddress = None, socket_remoteAddress = None,
        connection_socket_remoteAddress = None\<rparr> = ''10.0.0.1''
   \<and> normalize_ip ''203.0.113.5'' = ''203.0.113.5''"
  by code_simp

text \<open>
  C6, amended. When the IP preference is not \<^verbatim>\<open>'private'\<close> and no candidate from the
  \<^verbatim>\<open>Forwarded\<close> header or the single-value vendor headers is a valid public address,
  the resolver splits \<^verbatim>\<open>X-Forwarded-For\<close> on commas, trims each entry, drops the empty
  ones, and returns the normal form of the leftmost entry that is valid and public. With
  \<^verbatim>\<open>X-Forwarded-For: 203.0.113.5, 10.0.0.1\<close> and no higher-priority header the result
  is \<^verbatim>\<open>"203.0.113.5"\<close>, under either preference.
\<close>

theorem xff_leftmost_public:
  "(ipPreference \<noteq> Some ''private''
      \<and> (\<forall>c \<in> set (forwarded_candidates (req_headers req) @ direct_candidates (req_headers req)).
            \<not> public_candidate c)
      \<and> req_headers req ''x-forwarded-for'' = Some xff
      \<and> find public_candidate (filter (\<lambda>s. s \<noteq> []) (map js_trim (js_split CHR '','' xff))) = Some e
    \<longrightarrow> getClientIp ipPreference req = normalize_ip e)
   \<and> (req_headers req ''forwarded'' = None
      \<and> (\<forall>h \<in> set directHeaders. req_headers req h = None)
      \<and> req_headers req ''x-forwarded-for'' = Some ''203.0.113.5, 10.0.0.1''
    \<longrightarrow> getClientIp ipPreference req = ''203.0.113.5'')"
proof (intro conjI impI)
  assume a: "ipPreference \<noteq> Some ''private''
      \<and> (\<forall>c \<in> set (forwarded_candidates (req_headers req) @ direct_candidates (req_headers req)).
            \<not> public_candidate c)
      \<and> req_headers req ''x-forwarded-for'' = Some xff
      \<and> find public_candidate (filter (\<lambda>s. s \<noteq> []) (map js_trim (js_split CHR '','' xff))) = Some e"
  let ?hi = "forwarded_candidates (req_headers req) @ direct_candidates (req_headers req)"
  from a have hi: "find public_candidate ?hi = None"
    by (auto simp: find_None_iff)
  from a have x: "find public_candidate (xff_candidates (req_headers req)) = Some e"
    by (simp add: xff_candidates_entries)
  have "candidates req = ?hi @ xff_candidates (req_headers req) @ fallbacks req"
    by (simp add: candidates_def)
  then have "find public_candidate (candidates req) = Some e"
    using hi x by (simp only: find_append_list option.case)
  then have fp: "first_public (candidates req) = Some (normalize_ip e)"
    by (simp add: first_public_find)
  then have "normalize_ip e \<noteq> []"
    by (rule first_public_nonempty)
  with fp a show "getClientIp ipPreference req = normalize_ip e"
    by (simp add: getClientIp_def pickFirstPublic_def js_or_def)
next
  assume a: "req_headers req ''forwarded'' = None
      \<and> (\<forall>h \<in> set directHeaders. req_headers req h = None)
      \<and> req_headers req ''x-forwarded-for'' = Some ''203.0.113.5, 10.0.0.1''"
  then have f: "forwarded_candidates (req_headers req) = []"
    by (simp add: forwarded_candidates_def)
  from a have d: "direct_candidates (req_headers req) = []"
    by (simp add: direct_candidates_none)
  have "xff_candidates (req_headers req)
      = xff_candidates [''x-forwarded-for'' \<mapsto> ''203.0.113.5, 10.0.0.1'']"
    by (rule xff_candidates_cong) (simp add: a)
  also note xff_example
  finally have "candidates req = ''203.0.113.5'' # (''10.0.0.1'' # fallbacks req)"
    by (simp add: candidates_def f d)
  then have "getClientIp ipPreference req = normalize_ip ''203.0.113.5''"
    using xff_example_facts(1) by (rule getClientIp_first_candidate)
  then show "getClientIp ipPreference req = ''203.0.113.5''"
    by (simp only: xff_example_facts(2))
qed

theorem xff_leftmost_public_witness:
  "getClientIp None
       \<lparr>req_headers = [''x-real-ip'' \<mapsto> ''192.168.0.9'', ''x-forwarded-for'' \<mapsto> ''10.0.0.1 , 203.0.113.5:8080,8.8.8.8''],
        req_ip = Some ''::1'', connection_remoteAddress = None, socket_remoteAddress = None,
        connection_socket_remoteAddress = None\<rparr> = ''203.0.113.5''
   \<and> (\<forall>ipPreference.
        getClientIp ipPreference
          \<lparr>req_headers = [''x-forwarded-for'' \<mapsto> ''203.0.113.5, 10.0.0.1''],
           req_ip = Some ''::1'', connection_remoteAddress = None, socket_remoteAddress = None,
           connection_socket_remoteAddress = None\<rparr> = ''203.0.113.5'')"
proof -
  let ?r1 = "\<lparr>req_headers = [''x-real-ip'' \<mapsto> ''192.168.0.9'', ''x-forwarded-for'' \<mapsto> ''10.0.0.1 , 203.0.113.5:8080,8.8.8.8''],
        req_ip = Some ''::1'', connection_remoteAddress = None, socket_remoteAddress = None,
        connection_socket_remoteAddress = None\<rparr>"
  let ?r2 = "\<lparr>req_headers = [''x-forwarded-for'' \<mapsto> ''203.0.113.5, 10.0.0.1''],
           req_ip = Some ''::1'', connection_remoteAddress = None, socket_remoteAddress = None,
           connection_socket_remoteAddress = None\<rparr>"
  have hi: "forwarded_candidates (req_headers ?r1) @ direct_candidates (req_headers ?r1) = [''192.168.0.9'']"
    by code_simp
  have np: "\<not> public_candidate ''192.168.0.9''"
    by code_simp
  have s1: "\<forall>c \<in> set (forwarded_candidates (req_headers ?r1) @ direct_candidates (req_headers ?r1)).
            \<not> public_candidate c"
    unfolding hi using np by simp
  have a1: "(None :: string option) \<noteq> Some ''private''
      \<and> (\<forall>c \<in> set (forwarded_candidates (req_headers ?r1) @ direct_candidates (req_headers ?r1)).
            \<not> public_candidate c)
      \<and> req_headers ?r1 ''x-forwarded-for'' = Some ''10.0.0.1 , 203.0.113.5:8080,8.8.8.8''"
    using s1 by simp
  have a2: "find public_candidate (filter (\<lambda>s. s \<noteq> [])
        (map js_trim (js_split CHR '','' ''10.0.0.1 , 203.0.113.5:8080,8.8.8.8''))) = Some ''203.0.113.5:8080''"
    by code_simp
  have n: "normalize_ip ''203.0.113.5:8080'' = ''203.0.113.5''"
    by code_simp
  from xff_leftmost_public [of None ?r1 "''10.0.0.1 , 203.0.113.5:8080,8.8.8.8''" "''203.0.113.5:8080''"] a1 a2
  have 1: "getClientIp None ?r1 = normalize_ip ''203.0.113.5:8080''"
    by blast
  have b: "req_headers ?r2 ''forwarded'' = None
      \<and> (\<forall>h \<in> set directHeaders. req_headers ?r2 h = None)
      \<and> req_headers ?r2 ''x-forwarded-for'' = Some ''203.0.113.5, 10.0.0.1''"
    by (simp add: directHeaders_def)
  have 2: "getClientIp ipPreference ?r2 = ''203.0.113.5''" for ipPreference
    using xff_leftmost_public [of ipPreference ?r2] b by blast
  from 1 2 show ?thesis
    by (simp only: n simp_thms)
qed

subsection \<open>Classification\<close>

text \<open>
  C5. The source's comment gives the IPv6 link-local range as \<^verbatim>\<open>fe80::/10\<close>, which the
  claim repeats, but the test is \<^verbatim>\<open>lower.startsWith('fe80:')\<close>: the valid address
  \<^verbatim>\<open>fe90::1\<close>, inside \<^verbatim>\<open>fe80::/10\<close>, is classified public, as is \<^verbatim>\<open>febf::1\<close>.
  And \<^verbatim>\<open>lower.startsWith('fc')\<close> holds of \<^verbatim>\<open>fc::1\<close>, whose first group is
  \<^verbatim>\<open>00fc\<close>, outside \<^verbatim>\<open>fc00::/7\<close>: it is classified private.
\<close>

theorem isPrivate_link_local_prefix:
  "net_isIP ''fe80::1'' = 6 \<and> in_fe80_10 (first_group ''fe80::1'') \<and> isPrivate ''fe80::1''
   \<and> net_isIP ''fe90::1'' = 6 \<and> in_fe80_10 (first_group ''fe90::1'') \<and> \<not> isPrivate ''fe90::1''
   \<and> net_isIP ''febf::1'' = 6 \<and> in_fe80_10 (first_group ''febf::1'') \<and> \<not> isPrivate ''febf::1''
   \<and> net_isIP ''fc::1'' = 6 \<and> \<not> in_fc00_7 (first_group ''fc::1'')
     \<and> \<not> in_fe80_10 (first_group ''fc::1'') \<and> isPrivate ''fc::1''
   \<and> normalize_ip ''fe90::1'' = ''fe90::1''
   \<and> getClientIp None
        \<lparr>req_headers = [''x-forwarded-for'' \<mapsto> ''fe90::1, 203.0.113.5''], req_ip = None,
         connection_remoteAddress = None, socket_remoteAddress = None,
         connection_socket_remoteAddress = None\<rparr> = ''fe90::1''"
proof -
  have g: "in_fe80_10 (first_group ''fe80::1'')" "in_fe80_10 (first_group ''fe90::1'')"
    "in_fe80_10 (first_group ''febf::1'')" "\<not> in_fc00_7 (first_group ''fc::1'')"
    "\<not> in_fe80_10 (first_group ''fc::1'')"
    by (simp_all add: first_group_def digits_val_def digit_val_def in_fe80_10_def in_fc00_7_def)
  have v: "net_isIP ''fe80::1'' = 6" "net_isIP ''fe90::1'' = 6" "net_isIP ''febf::1'' = 6"
    "net_isIP ''fc::1'' = 6"
    by code_simp+
  have p: "isPrivate ''fe80::1''" "\<not> isPrivate ''fe90::1''" "\<not> isPrivate ''febf::1''"
    "isPrivate ''fc::1''"
    by code_simp+
  have n: "normalize_ip ''fe90::1'' = ''fe90::1''"
    by code_simp
  have r: "getClientIp None
        \<lparr>req_headers = [''x-forwarded-for'' \<mapsto> ''fe90::1, 203.0.113.5''], req_ip = None,
         connection_remoteAddress = None, socket_remoteAddress = None,
         connection_socket_remoteAddress = None\<rparr> = ''fe90::1''"
    by code_simp
  from g v p n r show ?thesis
    by blast
qed

section \<open>Properties of the session store\<close>

lemma store_ok_lookup:
  assumes "store_ok sessions" and "map_of sessions k = Some session"
  shows "k \<noteq> []" and "session_id session = k"
proof -
  from assms(2) have "(k, session) \<in> set sessions"
    by (rule map_of_SomeD)
  with assms(1) show "k \<noteq> []" and "session_id session = k"
    by (auto simp: store_ok_def list_all_iff)
qed

lemma store_ok_delete: "store_ok sessions \<Longrightarrow> store_ok (AList.delete k sessions)"
  by (auto simp: store_ok_def list_all_iff AList.delete_eq distinct_map_filter)

lemma store_ok_update:
  assumes "store_ok sessions" and "k \<noteq> []" and "session_id v = k"
  shows "store_ok (AList.update k v sessions)"
proof -
  have "list_all (\<lambda>(k, session). k \<noteq> [] \<and> session_id session = k) (AList.update k v sessions)"
    using assms by (induction sessions) (auto simp: store_ok_def)
  with assms(1) show ?thesis
    by (simp add: store_ok_def AList.distinct_update)
qed

lemma generateSession_nonempty: "randomBytes \<noteq> [] \<Longrightarrow> generateSession randomBytes \<noteq> []"
  by (cases randomBytes) (simp_all add: generateSession_def)

text \<open>Every operation keeps the store well formed, and the empty store is.\<close>

lemma store_ok_invariant:
  assumes "store_ok sessions"
  shows "randomBytes \<noteq> [] \<Longrightarrow> store_ok (fst (authenticate adminUser now randomBytes req sessions))"
    and "store_ok (fst (requireAuth now req sessions))"
    and "store_ok (fst (logout req sessions))"
    and "store_ok (fst (clearAllSessions sessions))"
    and "store_ok []"
  using assms
  by (auto simp: authenticate_def requireAuth_def logout_def clearAllSessions_def Let_def
      store_ok_delete store_ok_update generateSession_nonempty store_ok_def [of "[]"]
      split: option.splits)

text \<open>
  C3. For every stored session older than the fixed 24 hours, \<^verbatim>\<open>requireAuth\<close> with its
  token deletes the session from the store and answers 401 \<^verbatim>\<open>Session expired\<close> (the
  specification's \<^verbatim>\<open>Expired\<close>); the token is then unknown to the store, and the listing
  of \<^verbatim>\<open>getActiveSessions\<close> has no session with that identifier.
\<close>

theorem requireAuth_evicts_expired:
  assumes "store_ok sessions"
    and "map_of sessions tok = Some session"
    and "js_or_opt (cookie_admin_session req) (header_x_admin_session req) = Some tok"
    and "now - session_createdAt session > 24 * 60 * 60 * 1000"
  shows "requireAuth now req sessions
           = (AList.delete tok sessions, Answered (json 401 False ''Session expired''))
         \<and> map_of (fst (requireAuth now req sessions)) tok = None
         \<and> tok \<notin> set (map session_id (fst (getActiveSessions (fst (requireAuth now req sessions)))))"
proof -
  from assms(1,2) have t: "tok \<noteq> []"
    by (rule store_ok_lookup)
  with assms(2,3,4) have r: "requireAuth now req sessions
           = (AList.delete tok sessions, Answered (json 401 False ''Session expired''))"
    by (simp add: requireAuth_def Let_def)
  have d: "map_of (AList.delete tok sessions) tok = None"
    by (simp add: AList.delete_conv')
  have "store_ok (AList.delete tok sessions)"
    using assms(1) by (rule store_ok_delete)
  then have "\<forall>(k, s) \<in> set (AList.delete tok sessions). session_id s = k"
    by (auto simp: store_ok_def list_all_iff)
  moreover have "tok \<notin> fst ` set (AList.delete tok sessions)"
    by (rule AList.delete_notin_dom)
  ultimately have "tok \<notin> set (map session_id (fst (getActiveSessions (AList.delete tok sessions))))"
    by (force simp: getActiveSessions_def Let_def)
  with r d show ?thesis
    by simp
qed

theorem requireAuth_evicts_expired_witness:
  "requireAuth 86400001
      \<lparr>cookie_admin_session = Some ''ab'', header_x_admin_session = None, body_username = None,
       body_password = None, admin_req_ip = None, admin_req_userAgent = None\<rparr>
      [(''ab'', \<lparr>session_id = ''ab'', session_createdAt = 0, session_ip = Some ''::1'',
                session_userAgent = None\<rparr>),
       (''cd'', \<lparr>session_id = ''cd'', session_createdAt = 1, session_ip = None,
                session_userAgent = None\<rparr>)]
     = ([(''cd'', \<lparr>session_id = ''cd'', session_createdAt = 1, session_ip = None,
                   session_userAgent = None\<rparr>)],
        Answered (json 401 False ''Session expired''))
   \<and> fst (getActiveSessions [(''cd'', \<lparr>session_id = ''cd'', session_createdAt = 1, session_ip = None,
                   session_userAgent = None\<rparr>)])
       = [\<lparr>session_id = ''cd'', session_createdAt = 1, session_ip = None, session_userAgent = None\<rparr>]
   \<and> fst (authenticate \<lparr>username = ''admin'', password = ''admin123''\<rparr> 0 [171]
           \<lparr>cookie_admin_session = None, header_x_admin_session = None,
            body_username = Some ''admin'', body_password = Some ''admin123'',
            admin_req_ip = Some ''::1'', admin_req_userAgent = None\<rparr> [])
       = [(''ab'', \<lparr>session_id = ''ab'', session_createdAt = 0, session_ip = Some ''::1'',
                   session_userAgent = None\<rparr>)]"
proof -
  let ?req = "\<lparr>cookie_admin_session = Some ''ab'', header_x_admin_session = None, body_username = None,
       body_password = None, admin_req_ip = None, admin_req_userAgent = None\<rparr>"
  let ?s1 = "\<lparr>session_id = ''ab'', session_createdAt = 0, session_ip = Some ''::1'',
                session_userAgent = None\<rparr>"
  let ?s2 = "\<lparr>session_id = ''cd'', session_createdAt = 1, session_ip = None,
                session_userAgent = None\<rparr>"
  have 1: "store_ok [(''ab'', ?s1), (''cd'', ?s2)]"
    by (simp add: store_ok_def)
  have 2: "map_of [(''ab'', ?s1), (''cd'', ?s2)] ''ab'' = Some ?s1"
    by simp
  have 3: "js_or_opt (cookie_admin_session ?req) (header_x_admin_session ?req) = Some ''ab''"
    by (simp add: js_or_opt_def truthy_def)
  have 4: "86400001 - session_createdAt ?s1 > 24 * 60 * 60 * 1000"
    by simp
  have 5: "AList.delete ''ab'' [(''ab'', ?s1), (''cd'', ?s2)] = [(''cd'', ?s2)]"
    by (simp add: AList.delete_eq)
  have 6: "fst (getActiveSessions [(''cd'', ?s2)]) = [?s2]"
    by (simp add: getActiveSessions_def)
  have 7: "fst (authenticate \<lparr>username = ''admin'', password = ''admin123''\<rparr> 0 [171]
           \<lparr>cookie_admin_session = None, header_x_admin_session = None,
            body_username = Some ''admin'', body_password = Some ''admin123'',
            admin_req_ip = Some ''::1'', admin_req_userAgent = None\<rparr> []) = [(''ab'', ?s1)]"
    by (simp add: authenticate_def truthy_def generateSession_def hex_digit_def Let_def)
  from requireAuth_evicts_expired [OF 1 2 3 4] 5 6 7 show ?thesis
    by simp
qed

text \<open>
  C9. \<^verbatim>\<open>logout\<close> answers with success whatever token the request carries, known to the
  store or not, and none at all. After \<^verbatim>\<open>logout\<close> has received a token in the session
  cookie, \<^verbatim>\<open>requireAuth\<close> of a request presenting that token answers 401 (the
  specification's \<^verbatim>\<open>Unauthenticated\<close>) and leaves the store as it is.
\<close>

theorem logout_then_requireAuth:
  "res_success (snd (logout req sessions)) = True
   \<and> res_status (snd (logout req sessions)) = 200
   \<and> res_message (snd (logout req sessions)) = ''Logged out successfully''
   \<and> (js_or_opt (cookie_admin_session req') (header_x_admin_session req') = cookie_admin_session req
      \<longrightarrow> requireAuth now req' (fst (logout req sessions))
            = (fst (logout req sessions),
               Answered (json 401 False
                 (if truthy (cookie_admin_session req) then ''Invalid or expired session''
                  else ''Authentication required''))))"
proof (intro conjI impI)
  show "res_success (snd (logout req sessions)) = True"
    by (simp add: logout_def json_def split: option.splits)
  show "res_status (snd (logout req sessions)) = 200"
    by (simp add: logout_def json_def split: option.splits)
  show "res_message (snd (logout req sessions)) = ''Logged out successfully''"
    by (simp add: logout_def json_def split: option.splits)
next
  assume a: "js_or_opt (cookie_admin_session req') (header_x_admin_session req') = cookie_admin_session req"
  show "requireAuth now req' (fst (logout req sessions))
            = (fst (logout req sessions),
               Answered (json 401 False
                 (if truthy (cookie_admin_session req) then ''Invalid or expired session''
                  else ''Authentication required'')))"
  proof (cases "cookie_admin_session req")
    case None
    with a show ?thesis
      by (simp add: requireAuth_def logout_def truthy_def)
  next
    case (Some t)
    with a show ?thesis
      by (simp add: requireAuth_def logout_def truthy_def AList.delete_conv')
  qed
qed

theorem logout_then_requireAuth_witness:
  "snd (logout \<lparr>cookie_admin_session = Some ''zz'', header_x_admin_session = None, body_username = None,
         body_password = None, admin_req_ip = None, admin_req_userAgent = None\<rparr> [])
     = (json 200 True ''Logged out successfully'') \<lparr>res_cookie := ClearCookie\<rparr>
   \<and> requireAuth 5
        \<lparr>cookie_admin_session = None, header_x_admin_session = Some ''ab'', body_username = None,
         body_password = None, admin_req_ip = None, admin_req_userAgent = None\<rparr>
        (fst (logout
           \<lparr>cookie_admin_session = Some ''ab'', header_x_admin_session = None, body_username = None,
            body_password = None, admin_req_ip = None, admin_req_userAgent = None\<rparr>
           [(''ab'', \<lparr>session_id = ''ab'', session_createdAt = 0, session_ip = None,
                     session_userAgent = None\<rparr>)]))
     = ([], Answered (json 401 False ''Invalid or expired session''))"
proof -
  let ?out = "\<lparr>cookie_admin_session = Some ''ab'', header_x_admin_session = None, body_username = None,
            body_password = None, admin_req_ip = None, admin_req_userAgent = None\<rparr>"
  let ?again = "\<lparr>cookie_admin_session = None, header_x_admin_session = Some ''ab'', body_username = None,
         body_password = None, admin_req_ip = None, admin_req_userAgent = None\<rparr>"
  let ?st = "[(''ab'', \<lparr>session_id = ''ab'', session_createdAt = 0, session_ip = None,
                     session_userAgent = None\<rparr>)]"
  have 1: "js_or_opt (cookie_admin_session ?again) (header_x_admin_session ?again) = cookie_admin_session ?out"
    by (simp add: js_or_opt_def truthy_def)
  have 2: "fst (logout ?out ?st) = []"
    by (simp add: logout_def AList.delete_eq)
  have 3: "snd (logout \<lparr>cookie_admin_session = Some ''zz'', header_x_admin_session = None, body_username = None,
         body_password = None, admin_req_ip = None, admin_req_userAgent = None\<rparr> [])
     = (json 200 True ''Logged out successfully'') \<lparr>res_cookie := ClearCookie\<rparr>"
    by (simp add: logout_def AList.delete_eq)
  from logout_then_requireAuth [of ?out ?st ?again 5] 1
  have "requireAuth 5 ?again (fst (logout ?out ?st))
            = (fst (logout ?out ?st), Answered (json 401 False ''Invalid or expired session''))"
    by (simp add: truthy_def)
  with 2 3 show ?thesis
    by simp
qed

section \<open>Properties of the access keys\<close>


text \<open>\<^verbatim>\<open>getExpirationDate\<close> itself has no upper bound on the hours: whatever keeps the
  expiry a valid date is accepted, and a missing argument counts as 24.\<close>

lemma getExpirationDate_accepts:
  "getExpirationDate 0 (JNumber (Finite 1000000)) = Inr 3600000000000"
  "getExpirationDate 0 JUndefined = Inr 86400000"
  by (simp_all add: getExpirationDate_def num_le_def Let_def)

text \<open>
  C1. \<^verbatim>\<open>create\<close> fails with \<^verbatim>\<open>InvalidParameter\<close> and leaves the store as it was when
  \<^verbatim>\<open>ttlHours\<close> is not a number, is \<open>NaN\<close> or infinite, is zero or negative, or is above
  \<^verbatim>\<open>MAX_KEY_HOURS\<close>: the value is rejected, not clamped. In the source,
  \<^verbatim>\<open>getExpirationDate\<close> throws \<^verbatim>\<open>Hours must be a positive number\<close> for zero, a
  negative number and every value other than a number that is given.
\<close>

theorem create_rejects_bad_ttl:
  "((\<forall>n. ttlHours \<noteq> JNumber n) \<longrightarrow>
      create max_key_hours now new_id store ownerId ttlHours = (store, Inl InvalidParameter))
   \<and> (n = NaN \<or> n = PosInfinity \<or> n = NegInfinity \<longrightarrow>
      create max_key_hours now new_id store ownerId (JNumber n) = (store, Inl InvalidParameter))
   \<and> (h \<le> 0 \<longrightarrow>
      create max_key_hours now new_id store ownerId (JNumber (Finite h)) = (store, Inl InvalidParameter))
   \<and> (max_key_hours < h \<longrightarrow>
      create max_key_hours now new_id store ownerId (JNumber (Finite h)) = (store, Inl InvalidParameter))
   \<and> (h \<le> 0 \<longrightarrow>
      getExpirationDate now (JNumber (Finite h)) = Inl (Error ''Hours must be a positive number''))
   \<and> ((\<forall>n. ttlHours \<noteq> JNumber n) \<and> ttlHours \<noteq> JUndefined \<longrightarrow>
      getExpirationDate now ttlHours = Inl (Error ''Hours must be a positive number''))"
proof (intro conjI impI)
  assume "\<forall>n. ttlHours \<noteq> JNumber n"
  then show "create max_key_hours now new_id store ownerId ttlHours = (store, Inl InvalidParameter)"
    by (cases ttlHours) (simp_all add: create_def)
next
  assume "n = NaN \<or> n = PosInfinity \<or> n = NegInfinity"
  then show "create max_key_hours now new_id store ownerId (JNumber n) = (store, Inl InvalidParameter)"
    by (auto simp: create_def)
next
  assume "h \<le> 0"
  then show "create max_key_hours now new_id store ownerId (JNumber (Finite h)) = (store, Inl InvalidParameter)"
    by (simp add: create_def)
next
  assume "max_key_hours < h"
  then show "create max_key_hours now new_id store ownerId (JNumber (Finite h)) = (store, Inl InvalidParameter)"
    by (simp add: create_def)
next
  assume "h \<le> 0"
  then show "getExpirationDate now (JNumber (Finite h)) = Inl (Error ''Hours must be a positive number'')"
    by (simp add: getExpirationDate_def num_le_def)
next
  assume "(\<forall>n. ttlHours \<noteq> JNumber n) \<and> ttlHours \<noteq> JUndefined"
  then show "getExpirationDate now ttlHours = Inl (Error ''Hours must be a positive number'')"
    by (cases ttlHours) (simp_all add: getExpirationDate_def)
qed

theorem create_rejects_bad_ttl_witness:
  "create 168 1700000000000 ''k1'' Map.empty ''owner'' (JString ''24'') = (Map.empty, Inl InvalidParameter)
   \<and> create 168 1700000000000 ''k1'' Map.empty ''owner'' (JNumber NaN) = (Map.empty, Inl InvalidParameter)
   \<and> create 168 1700000000000 ''k1'' Map.empty ''owner'' (JNumber (Finite 0)) = (Map.empty, Inl InvalidParameter)
   \<and> create 168 1700000000000 ''k1'' Map.empty ''owner'' (JNumber (Finite 169)) = (Map.empty, Inl InvalidParameter)
   \<and> getExpirationDate 1700000000000 (JNumber (Finite (- 3))) = Inl (Error ''Hours must be a positive number'')
   \<and> getExpirationDate 1700000000000 (JString ''24'') = Inl (Error ''Hours must be a positive number'')"
proof -
  have 1: "\<forall>n. JString ''24'' \<noteq> JNumber n"
    by simp
  have 2: "NaN = NaN \<or> NaN = PosInfinity \<or> NaN = NegInfinity"
    by simp
  have 3: "(0 :: rat) \<le> 0" "(168 :: rat) < 169" "(- 3 :: rat) \<le> 0"
    by simp_all
  have 4: "(\<forall>n. JString ''24'' \<noteq> JNumber n) \<and> JString ''24'' \<noteq> JUndefined"
    by simp
  from create_rejects_bad_ttl [where ttlHours = "JString ''24''" and max_key_hours = 168
      and now = 1700000000000 and new_id = "''k1''" and store = Map.empty and ownerId = "''owner''"] 1
  have a: "create 168 1700000000000 ''k1'' Map.empty ''owner'' (JString ''24'') = (Map.empty, Inl InvalidParameter)"
    by blast
  from create_rejects_bad_ttl [where n = NaN and max_key_hours = 168
      and now = 1700000000000 and new_id = "''k1''" and store = Map.empty and ownerId = "''owner''"] 2
  have b: "create 168 1700000000000 ''k1'' Map.empty ''owner'' (JNumber NaN) = (Map.empty, Inl InvalidParameter)"
    by blast
  from create_rejects_bad_ttl [where h = 0 and max_key_hours = 168
      and now = 1700000000000 and new_id = "''k1''" and store = Map.empty and ownerId = "''owner''"] 3(1)
  have c: "create 168 1700000000000 ''k1'' Map.empty ''owner'' (JNumber (Finite 0)) = (Map.empty, Inl InvalidParameter)"
    by blast
  from create_rejects_bad_ttl [where h = 169 and max_key_hours = 168
      and now = 1700000000000 and new_id = "''k1''" and store = Map.empty and ownerId = "''owner''"] 3(2)
  have d: "create 168 1700000000000 ''k1'' Map.empty ''owner'' (JNumber (Finite 169)) = (Map.empty, Inl InvalidParameter)"
    by blast
  from create_rejects_bad_ttl [where h = "- 3" and now = 1700000000000] 3(3)
  have e: "getExpirationDate 1700000000000 (JNumber (Finite (- 3))) = Inl (Error ''Hours must be a positive number'')"
    by blast
  from create_rejects_bad_ttl [where ttlHours = "JString ''24''" and now = 1700000000000] 4
  have f: "getExpirationDate 1700000000000 (JString ''24'') = Inl (Error ''Hours must be a positive number'')"
    by blast
  from a b c d e f show ?thesis
    by blast
qed

text \<open>
  C2. A stored key that is revoked and whose expiry is at or before the clock validates
  as \<^verbatim>\<open>Revoked\<close>, not \<^verbatim>\<open>Expired\<close>; the source's \<^verbatim>\<open>isKeyValid\<close> is false of it.
\<close>

theorem validate_revoked_before_expired:
  "store ident = Some k \<and> status k = ''revoked'' \<and> expires_at k \<le> now \<longrightarrow>
     validate now store ident = Revoked \<and> validate now store ident \<noteq> Expired
     \<and> \<not> isKeyValid now (store ident)"
  by (simp add: validate_def isKeyValid_def)

theorem validate_revoked_before_expired_witness:
  "validate 1700000000000
     [''k1'' \<mapsto> \<lparr>key_id = ''k1'', user_id = ''owner'', status = ''revoked'',
                  created_at = 1600000000000, expires_at = 1600003600000\<rparr>] ''k1'' = Revoked
   \<and> \<not> isKeyValid 1700000000000
     ([''k1'' \<mapsto> \<lparr>key_id = ''k1'', user_id = ''owner'', status = ''revoked'',
                  created_at = 1600000000000, expires_at = 1600003600000\<rparr>] ''k1'')"
proof -
  let ?k = "\<lparr>key_id = ''k1'', user_id = ''owner'', status = ''revoked'',
                  created_at = 1600000000000, expires_at = 1600003600000\<rparr>"
  have "[''k1'' \<mapsto> ?k] ''k1'' = Some ?k \<and> status ?k = ''revoked'' \<and> expires_at ?k \<le> 1700000000000"
    by simp
  with validate_revoked_before_expired
    [where store = "[''k1'' \<mapsto> ?k]" and ident = "''k1''" and k = ?k and now = 1700000000000]
  show ?thesis
    by blast
qed



end
